theory Spec2Isabelle
  imports Complex_Main
begin

section \<open>JavaScript values\<close>

text \<open>
  The model covers the message gateway (\<^verbatim>\<open>src/gateway/server.js\<close>), the agent
  runtime (\<^verbatim>\<open>src/agent/runtime.js\<close>), the language-model client
  (\<^verbatim>\<open>src/agent/llm.js\<close>), the tool executor (\<^verbatim>\<open>src/agent/tools.js\<close>) and the
  WhatsApp adapter (\<^verbatim>\<open>src/channels/whatsapp.js\<close>).

  A JavaScript string is a \<^typ>\<open>string\<close>, one \<^typ>\<open>char\<close> per character; the emoji and
  the em dash of the source's literals are written as their UTF-8 bytes. A value that may be
  \<^verbatim>\<open>undefined\<close> or \<^verbatim>\<open>null\<close> is an \<^typ>\<open>'a option\<close>. A thrown exception is a
  value of \<open>js_exception\<close>, and a computation that may throw returns
  \<open>js_exception + 'a\<close>, paired with the state it leaves behind. Every reading of
  \<^verbatim>\<open>Date.now()\<close> is taken from a clock supplied by the environment, about which nothing
  is assumed. Numbers are exact rationals plus \<^verbatim>\<open>NaN\<close>: the rounding of IEEE doubles is
  not modelled, and no property below depends on a computed amount.
\<close>

datatype js_exception =
    Error string
  | TypeError string
  | RangeError string
  | SyntaxError string

datatype js_number = NaN | Fin rat

fun js_mul :: "js_number \<Rightarrow> js_number \<Rightarrow> js_number" where
  "js_mul (Fin a) (Fin b) = Fin (a * b)"
| "js_mul _ _ = NaN"

fun js_add :: "js_number \<Rightarrow> js_number \<Rightarrow> js_number" where
  "js_add (Fin a) (Fin b) = Fin (a + b)"
| "js_add _ _ = NaN"

text \<open>\<^verbatim>\<open>x || 0\<close> on a number: \<^verbatim>\<open>NaN\<close> and \<^verbatim>\<open>0\<close> are falsy.\<close>

fun or_zero :: "js_number \<Rightarrow> js_number" where
  "or_zero NaN = Fin 0"
| "or_zero (Fin r) = Fin r"

text \<open>A possibly missing number read as a number: \<^verbatim>\<open>undefined\<close> becomes \<^verbatim>\<open>NaN\<close>.\<close>

fun to_number :: "rat option \<Rightarrow> js_number" where
  "to_number None = NaN"
| "to_number (Some r) = Fin r"

definition apostrophe :: string where
  "apostrophe = [CHR 0x27]"

definition dquote :: string where
  "dquote = [CHR 0x22]"

definition newline :: string where
  "newline = [CHR 0x0A]"

definition warning_sign :: string where
  "warning_sign = [CHR 0xE2, CHR 0x9A, CHR 0xA0, CHR 0xEF, CHR 0xB8, CHR 0x8F]"

definition check_mark :: string where
  "check_mark = [CHR 0xE2, CHR 0x9C, CHR 0x85]"

definition package_sign :: string where
  "package_sign = [CHR 0xF0, CHR 0x9F, CHR 0x93, CHR 0xA6]"

definition bullet :: string where
  "bullet = [CHR 0xE2, CHR 0x80, CHR 0xA2]"

definition truck_sign :: string where
  "truck_sign = [CHR 0xF0, CHR 0x9F, CHR 0x9A, CHR 0x9A]"

definition house_sign :: string where
  "house_sign = [CHR 0xF0, CHR 0x9F, CHR 0x8F, CHR 0xA0]"

definition pin_sign :: string where
  "pin_sign = [CHR 0xF0, CHR 0x9F, CHR 0x93, CHR 0x8D]"

definition star_sign :: string where
  "star_sign = [CHR 0xE2, CHR 0xAD, CHR 0x90]"

definition siren_sign :: string where
  "siren_sign = [CHR 0xF0, CHR 0x9F, CHR 0x9A, CHR 0xA8]"

definition cross_sign :: string where
  "cross_sign = [CHR 0xE2, CHR 0x9D, CHR 0x8C]"

definition em_dash :: string where
  "em_dash = [CHR 0xE2, CHR 0x80, CHR 0x94]"

subsection \<open>Numbers as text\<close>

definition digit_char :: "nat \<Rightarrow> char" where
  "digit_char d = ''0123456789'' ! d"

text \<open>The decimal digits of a non-negative integer, as \<^verbatim>\<open>`${Date.now()}`\<close> prints them.\<close>

function show_nat :: "nat \<Rightarrow> string" where
  "show_nat n =
     (if n < 10 then [digit_char n] else show_nat (n div 10) @ [digit_char (n mod 10)])"
  by pat_completeness auto
termination
  by (relation "measure id") auto

declare show_nat.simps [simp del]

fun frac_digits :: "nat \<Rightarrow> rat \<Rightarrow> string" where
  "frac_digits 0 r = []"
| "frac_digits (Suc k) r =
     (if r = 0 then []
      else (let d = nat \<lfloor>r * 10\<rfloor> in digit_char d # frac_digits k (r * 10 - of_nat d)))"

text \<open>
  A number inside a template literal. Integers print as their digits; a fraction prints
  its exact decimal expansion, cut after 17 places.
\<close>

definition num_str :: "js_number \<Rightarrow> string" where
  "num_str x =
     (case x of
        NaN \<Rightarrow> ''NaN''
      | Fin r \<Rightarrow>
          (if r < 0 then ''-'' else '''') @ show_nat (nat \<lfloor>\<bar>r\<bar>\<rfloor>) @
          (if \<bar>r\<bar> = of_int \<lfloor>\<bar>r\<bar>\<rfloor> then ''''
           else ''.'' @ frac_digits 17 (\<bar>r\<bar> - of_int \<lfloor>\<bar>r\<bar>\<rfloor>)))"

text \<open>Interpolation of a value that may be \<^verbatim>\<open>undefined\<close>.\<close>

fun str_of :: "string option \<Rightarrow> string" where
  "str_of None = ''undefined''"
| "str_of (Some s) = s"

fun num_of :: "rat option \<Rightarrow> string" where
  "num_of None = ''undefined''"
| "num_of (Some r) = num_str (Fin r)"

subsection \<open>String methods\<close>

text \<open>\<^verbatim>\<open>s.startsWith(p)\<close> and \<^verbatim>\<open>s.endsWith(p)\<close>.\<close>

definition starts_with :: "string \<Rightarrow> string \<Rightarrow> bool" where
  "starts_with s p = (take (length p) s = p)"

definition ends_with :: "string \<Rightarrow> string \<Rightarrow> bool" where
  "ends_with s p = (length p \<le> length s \<and> drop (length s - length p) s = p)"

text \<open>\<^verbatim>\<open>s.includes(p)\<close>.\<close>

fun str_includes :: "string \<Rightarrow> string \<Rightarrow> bool" where
  "str_includes [] p = (p = [])"
| "str_includes (c # cs) p = (starts_with (c # cs) p \<or> str_includes cs p)"


text \<open>\<^verbatim>\<open>s.toLowerCase()\<close>, on the ASCII letters.\<close>

definition lower_char :: "char \<Rightarrow> char" where
  "lower_char c =
     (if (65 :: nat) \<le> of_char c \<and> (of_char c :: nat) \<le> 90
      then char_of ((of_char c :: nat) + 32) else c)"

definition toLowerCase :: "string \<Rightarrow> string" where
  "toLowerCase s = map lower_char s"

text \<open>\<^verbatim>\<open>s.trim()\<close>, on the ASCII white space.\<close>

definition is_space :: "char \<Rightarrow> bool" where
  "is_space c = ((of_char c :: nat) \<in> {9, 10, 11, 12, 13, 32})"

definition trim :: "string \<Rightarrow> string" where
  "trim s = rev (dropWhile is_space (rev (dropWhile is_space s)))"

text \<open>\<^verbatim>\<open>xs.join(sep)\<close> on an array of strings.\<close>

fun join :: "string \<Rightarrow> string list \<Rightarrow> string" where
  "join sep [] = []"
| "join sep [x] = x"
| "join sep (x # y # ys) = x @ sep @ join sep (y # ys)"

text \<open>\<^verbatim>\<open>s.split(/[-\<emdash>]/)\<close>: the pieces between hyphens and em dashes.\<close>

function split_dash :: "string \<Rightarrow> string list" where
  "split_dash [] = [Nil]"
| "split_dash (c # cs) =
     (if c = CHR ''-'' then [] # split_dash cs
      else if starts_with (c # cs) em_dash then [] # split_dash (drop 2 cs)
      else (case split_dash cs of
              [] \<Rightarrow> [c # Nil]
            | p # ps \<Rightarrow> (c # p) # ps))"
  by pat_completeness auto
termination
  by (relation "measure length") auto

text \<open>\<^verbatim>\<open>encodeURIComponent\<close>: every byte outside the unreserved set becomes \<^verbatim>\<open>%XX\<close>.\<close>

definition hex_digit :: "nat \<Rightarrow> char" where
  "hex_digit d = ''0123456789ABCDEF'' ! d"

definition uri_unreserved :: "char \<Rightarrow> bool" where
  "uri_unreserved c =
     (c \<in> set ''ABCDEFGHIJKLMNOPQRSTUVWXYZabcdefghijklmnopqrstuvwxyz0123456789-_.!~*()''
      \<or> c = CHR 0x27)"

definition encodeURIComponent :: "string \<Rightarrow> string" where
  "encodeURIComponent s =
     concat (map (\<lambda>c. if uri_unreserved c then [c]
                       else [CHR ''%'', hex_digit ((of_char c :: nat) div 16),
                             hex_digit ((of_char c :: nat) mod 16)]) s)"

text \<open>
  \<^verbatim>\<open>parseFloat\<close> on a string of digits and dots (what \<^verbatim>\<open>replace(/[^0-9.]/g, '')\<close> leaves):
  the longest prefix that is a decimal literal, \<^verbatim>\<open>NaN\<close> when it has no digit.
\<close>

definition is_digit :: "char \<Rightarrow> bool" where
  "is_digit c = (c \<in> set ''0123456789'')"

definition digit_val :: "char \<Rightarrow> nat" where
  "digit_val c = (of_char c :: nat) - 48"

definition digits_val :: "string \<Rightarrow> nat" where
  "digits_val ds = foldl (\<lambda>acc c. acc * 10 + digit_val c) 0 ds"

definition parseFloat :: "string \<Rightarrow> js_number" where
  "parseFloat s =
     (let ip = takeWhile is_digit s;
          rest = dropWhile is_digit s;
          fp = (case rest of
                  [] \<Rightarrow> []
                | c # r \<Rightarrow> if c = CHR ''.'' then takeWhile is_digit r else [])
      in if ip = [] \<and> fp = [] then NaN
         else Fin (of_nat (digits_val ip) + of_nat (digits_val fp) / 10 ^ length fp))"

definition strip_price :: "string \<Rightarrow> string" where
  "strip_price s = filter (\<lambda>c. is_digit c \<or> c = CHR ''.'') s"

section \<open>The tool executor\<close>

subsection \<open>Arguments, stored entities and results\<close>

text \<open>
  The argument object of a tool call, as \<^verbatim>\<open>JSON.parse\<close> returns it, projected on the
  properties that the tools read. A property that is absent is \<open>None\<close>; one that is present
  has the JSON type that the tool's schema in \<^verbatim>\<open>toolDefinitions\<close> declares. The price of
  an order item is the exception: \<^verbatim>\<open>takeOrder\<close> tests its type, so it is a number or a
  string.
\<close>

datatype price = PriceNum rat | PriceStr string

record order_item =
  item_name :: "string option"
  item_quantity :: "rat option"
  item_price :: "price option"
  item_unitPrice :: "rat option"

record tool_args =
  arg_category :: "string option"
  arg_date :: "string option"
  arg_time :: "string option"
  arg_guests :: "rat option"
  arg_name :: "string option"
  arg_phone :: "string option"
  arg_notes :: "string option"
  arg_items :: "order_item list option"
  arg_customerName :: "string option"
  arg_customerPhone :: "string option"
  arg_delivery :: "bool option"
  arg_address :: "string option"
  arg_issue :: "string option"
  arg_urgency :: "string option"
  arg_rating :: "rat option"
  arg_comment :: "string option"
  arg_reason :: "string option"
  arg_customerInfo :: "string option"
  arg_details :: "string option"
  arg_query :: "string option"

text \<open>The empty argument object \<^verbatim>\<open>{}\<close>.\<close>

definition no_args :: tool_args where
  "no_args =
     \<lparr>arg_category = None, arg_date = None, arg_time = None, arg_guests = None,
      arg_name = None, arg_phone = None, arg_notes = None, arg_items = None,
      arg_customerName = None, arg_customerPhone = None, arg_delivery = None,
      arg_address = None, arg_issue = None, arg_urgency = None, arg_rating = None,
      arg_comment = None, arg_reason = None, arg_customerInfo = None, arg_details = None,
      arg_query = None\<rparr>"

record location =
  loc_address :: "string option"
  loc_city :: "string option"
  loc_googleMapsUrl :: "string option"

record contact =
  con_phone :: "string option"
  con_email :: "string option"

record business_config =
  cfg_name :: "string option"
  cfg_type :: "string option"
  cfg_location :: "location option"
  cfg_contact :: "contact option"
  cfg_hours :: "string option"
  cfg_services :: "string list option"
  cfg_description :: "string option"

record booking =
  bk_id :: string
  bk_date :: "string option"
  bk_time :: "string option"
  bk_guests :: "rat option"
  bk_name :: "string option"
  bk_phone :: "string option"
  bk_notes :: string
  bk_status :: string
  bk_createdAt :: nat

record order_line =
  ol_item :: order_item
  ol_price :: js_number
  ol_total :: js_number

record order =
  ord_id :: string
  ord_items :: "order_line list"
  ord_total :: js_number
  ord_customerName :: "string option"
  ord_customerPhone :: "string option"
  ord_delivery :: bool
  ord_address :: string
  ord_status :: string
  ord_createdAt :: nat

record complaint =
  cmpl_id :: string
  cmpl_customerName :: "string option"
  cmpl_customerPhone :: "string option"
  cmpl_issue :: "string option"
  cmpl_urgency :: string
  cmpl_status :: string
  cmpl_createdAt :: nat

record feedback =
  fb_id :: string
  fb_customerName :: "string option"
  fb_rating :: "rat option"
  fb_comment :: string
  fb_createdAt :: nat

record escalation =
  esc_id :: string
  esc_reason :: "string option"
  esc_customerInfo :: string
  esc_details :: string
  esc_status :: string
  esc_createdAt :: nat

record menu_item =
  mi_name :: string
  mi_price :: string

record price_line =
  pl_name :: "string option"
  pl_quantity :: "rat option"
  pl_unitPrice :: "rat option"
  pl_subtotal :: js_number

text \<open>
  The \<^verbatim>\<open>data\<close> object of a result, one constructor for each shape that a tool returns;
  the last argument of a constructor that carries a text is the object's \<^verbatim>\<open>message\<close>.
\<close>

datatype tool_data =
    BusinessInfo "string option" "string option" "string option" "location option"
      "contact option" "string option"
  | MenuData "menu_item list" nat
  | AvailabilityData bool "string option" "string option" "rat option" string
  | BookingData booking string
  | OrderData order string
  | DirectionsData string string string string
  | ComplaintData complaint string
  | FeedbackData feedback string
  | EscalationData escalation string
  | KnowledgeData "string option" "(string \<times> string) list" string
  | PriceData "price_line list" js_number string

record tool_result =
  success :: bool
  data :: tool_data

fun data_message :: "tool_data \<Rightarrow> string option" where
  "data_message (BusinessInfo _ _ _ _ _ _) = None"
| "data_message (MenuData _ _) = None"
| "data_message (AvailabilityData _ _ _ _ m) = Some m"
| "data_message (BookingData _ m) = Some m"
| "data_message (OrderData _ m) = Some m"
| "data_message (DirectionsData _ _ _ m) = Some m"
| "data_message (ComplaintData _ m) = Some m"
| "data_message (FeedbackData _ m) = Some m"
| "data_message (EscalationData _ m) = Some m"
| "data_message (KnowledgeData _ _ m) = Some m"
| "data_message (PriceData _ _ m) = Some m"

subsection \<open>State and environment\<close>

text \<open>
  The executor's state: how many times the clock has been read, the loaded configuration
  (\<^verbatim>\<open>this.businessConfig\<close>), the three JSON files under \<^verbatim>\<open>data/orders\<close> (\<open>None\<close>
  for a file that is missing or does not parse) and the lines written to the console.
  The environment holds what the executor reads from outside: the clock, the parsed
  \<^verbatim>\<open>config/business.json\<close> (\<open>None\<close> when reading it fails), the message of the error
  that a write to \<^verbatim>\<open>data/orders\<close> throws (\<open>None\<close> when writes succeed), and the files of
  \<^verbatim>\<open>data/business\<close> with their contents (\<open>None\<close> where reading throws).
\<close>

record tool_state =
  ticks :: nat
  businessConfig :: "business_config option"
  bookings_file :: "booking list option"
  orders_file :: "order list option"
  complaints_file :: "complaint list option"
  console :: "string list"

record tool_env =
  clock :: "nat \<Rightarrow> nat"
  config_file :: "business_config option"
  disk_error :: "string option"
  knowledge_dir :: "(string \<times> string option) list option"

type_synonym 'a outcome = "(js_exception + 'a) \<times> tool_state"

definition date_now :: "tool_env \<Rightarrow> tool_state \<Rightarrow> nat \<times> tool_state" where
  "date_now env st = (clock env (ticks st), st\<lparr>ticks := Suc (ticks st)\<rparr>)"

definition console_log :: "string \<Rightarrow> tool_state \<Rightarrow> tool_state" where
  "console_log line st = st\<lparr>console := console st @ [line]\<rparr>"

definition default_config :: business_config where
  "default_config =
     \<lparr>cfg_name = Some ''Restaurant'', cfg_type = Some ''restaurant'',
      cfg_location = Some \<lparr>loc_address = Some [], loc_city = Some [],
                            loc_googleMapsUrl = Some []\<rparr>,
      cfg_contact = Some \<lparr>con_phone = Some [], con_email = None\<rparr>,
      cfg_hours = Some ''Not configured'', cfg_services = Some [],
      cfg_description = None\<rparr>"

definition loadBusinessConfig :: "tool_env \<Rightarrow> tool_state \<Rightarrow> tool_state" where
  "loadBusinessConfig env st =
     (case config_file env of
        Some c \<Rightarrow> st\<lparr>businessConfig := Some c\<rparr>
      | None \<Rightarrow>
          (console_log (warning_sign @ '' No business config found, using defaults'') st)
            \<lparr>businessConfig := Some default_config\<rparr>)"

text \<open>
  \<^verbatim>\<open>saveBooking\<close>, \<^verbatim>\<open>saveOrder\<close> and \<^verbatim>\<open>saveComplaint\<close>: a file that cannot be read
  counts as the empty list; an error of the write is logged and swallowed.
\<close>

definition file_items :: "'a list option \<Rightarrow> 'a list" where
  "file_items f = (case f of None \<Rightarrow> [] | Some xs \<Rightarrow> xs)"

definition saveBooking :: "tool_env \<Rightarrow> booking \<Rightarrow> tool_state \<Rightarrow> tool_state" where
  "saveBooking env b st =
     (case disk_error env of
        None \<Rightarrow> st\<lparr>bookings_file := Some (file_items (bookings_file st) @ [b])\<rparr>
      | Some msg \<Rightarrow> console_log (cross_sign @ '' Error saving booking: '' @ msg) st)"

definition saveOrder :: "tool_env \<Rightarrow> order \<Rightarrow> tool_state \<Rightarrow> tool_state" where
  "saveOrder env ord st =
     (case disk_error env of
        None \<Rightarrow> st\<lparr>orders_file := Some (file_items (orders_file st) @ [ord])\<rparr>
      | Some msg \<Rightarrow> console_log (cross_sign @ '' Error saving order: '' @ msg) st)"

definition saveComplaint :: "tool_env \<Rightarrow> complaint \<Rightarrow> tool_state \<Rightarrow> tool_state" where
  "saveComplaint env c st =
     (case disk_error env of
        None \<Rightarrow> st\<lparr>complaints_file := Some (file_items (complaints_file st) @ [c])\<rparr>
      | Some msg \<Rightarrow> console_log (cross_sign @ '' Error saving complaint: '' @ msg) st)"

subsection \<open>Tool implementations\<close>

text \<open>
  The \<^verbatim>\<open>TypeError\<close> of reading a property of \<^verbatim>\<open>null\<close> (as
  \<^verbatim>\<open>this.businessConfig\<close> is before it is loaded) or of \<^verbatim>\<open>undefined\<close>.
\<close>

definition null_property :: "string \<Rightarrow> js_exception" where
  "null_property prop =
     TypeError (''Cannot read properties of null (reading '' @ apostrophe @ prop @ apostrophe @ '')'')"

definition undefined_property :: "string \<Rightarrow> js_exception" where
  "undefined_property prop =
     TypeError (''Cannot read properties of undefined (reading '' @ apostrophe @ prop @ apostrophe @ '')'')"

definition getBusinessInfo :: "tool_state \<Rightarrow> tool_result outcome" where
  "getBusinessInfo st =
     (case businessConfig st of
        None \<Rightarrow> (Inl (null_property ''name''), st)
      | Some c \<Rightarrow>
          (Inr \<lparr>success = True,
                data = BusinessInfo (cfg_name c) (cfg_type c) (cfg_hours c) (cfg_location c)
                         (cfg_contact c) (cfg_description c)\<rparr>, st))"

text \<open>
  One entry of \<^verbatim>\<open>services\<close>, split into a name and a price:
  \<^verbatim>\<open>parts[0]?.trim() || s\<close> and \<^verbatim>\<open>parts[1]?.trim() || 'TBD'\<close>.
\<close>

definition parse_service :: "string \<Rightarrow> menu_item" where
  "parse_service s =
     (case split_dash s of
        [] \<Rightarrow> \<lparr>mi_name = s, mi_price = ''TBD''\<rparr>
      | p0 # rest \<Rightarrow>
          \<lparr>mi_name = (if trim p0 = [] then s else trim p0),
           mi_price = (case rest of
                         [] \<Rightarrow> ''TBD''
                       | p1 # _ \<Rightarrow> if trim p1 = [] then ''TBD'' else trim p1)\<rparr>)"

definition getMenu :: "tool_state \<Rightarrow> string option \<Rightarrow> tool_result outcome" where
  "getMenu st category =
     (case businessConfig st of
        None \<Rightarrow> (Inl (null_property ''services''), st)
      | Some c \<Rightarrow>
          (let services = (case cfg_services c of None \<Rightarrow> [] | Some ss \<Rightarrow> ss);
               menu = map parse_service services;
               menu' = (case category of
                          None \<Rightarrow> menu
                        | Some cat \<Rightarrow>
                            if cat = [] then menu
                            else filter (\<lambda>item. str_includes (toLowerCase (mi_name item))
                                                   (toLowerCase cat)) menu)
           in (Inr \<lparr>success = True, data = MenuData menu' (length menu')\<rparr>, st)))"

definition checkAvailability ::
  "tool_state \<Rightarrow> string option \<Rightarrow> string option \<Rightarrow> rat option \<Rightarrow> tool_result outcome" where
  "checkAvailability st date time guests =
     (Inr \<lparr>success = True,
           data = AvailabilityData True date time guests
                    (''Great news! We have availability for '' @ num_of guests @
                     '' guests on '' @ str_of date @ '' at '' @ str_of time @ ''.'')\<rparr>, st)"

definition createBooking :: "tool_env \<Rightarrow> tool_state \<Rightarrow> tool_args \<Rightarrow> tool_result outcome" where
  "createBooking env st args =
     (let (t1, st1) = date_now env st;
          (t2, st2) = date_now env st1;
          b = \<lparr>bk_id = ''BK-'' @ show_nat t1,
               bk_date = arg_date args, bk_time = arg_time args, bk_guests = arg_guests args,
               bk_name = arg_name args, bk_phone = arg_phone args,
               bk_notes = (case arg_notes args of None \<Rightarrow> [] | Some n \<Rightarrow> n),
               bk_status = ''confirmed'', bk_createdAt = t2\<rparr>;
          st3 = saveBooking env b st2
      in (Inr \<lparr>success = True,
               data = BookingData b
                        (check_mark @ '' Booking confirmed for '' @ str_of (arg_name args) @
                         '' on '' @ str_of (arg_date args) @ '' at '' @ str_of (arg_time args) @
                         '' for '' @ num_of (arg_guests args) @
                         '' guests. Confirmation sent to '' @ str_of (arg_phone args) @ ''.'')\<rparr>,
          st3))"

text \<open>
  The unit price of an order item:
  \<^verbatim>\<open>typeof item.price === 'number' ? item.price : parseFloat(item.price.replace(/[^0-9.]/g, '')) || 0\<close>.
  When the item has no \<^verbatim>\<open>price\<close>, the call of \<^verbatim>\<open>replace\<close> on \<^verbatim>\<open>undefined\<close> throws.
\<close>

definition item_price_value :: "order_item \<Rightarrow> js_exception + js_number" where
  "item_price_value item =
     (case item_price item of
        Some (PriceNum r) \<Rightarrow> Inr (Fin r)
      | Some (PriceStr s) \<Rightarrow> Inr (or_zero (parseFloat (strip_price s)))
      | None \<Rightarrow> Inl (undefined_property ''replace''))"

fun order_lines :: "order_item list \<Rightarrow> js_exception + order_line list" where
  "order_lines [] = Inr []"
| "order_lines (item # items) =
     (case item_price_value item of
        Inl e \<Rightarrow> Inl e
      | Inr p \<Rightarrow>
          (case order_lines items of
             Inl e \<Rightarrow> Inl e
           | Inr ls \<Rightarrow>
               Inr (\<lparr>ol_item = item, ol_price = p,
                      ol_total = js_mul p (to_number (item_quantity item))\<rparr> # ls)))"

definition order_line_text :: "order_line \<Rightarrow> string" where
  "order_line_text i =
     bullet @ '' '' @ num_of (item_quantity (ol_item i)) @ ''x '' @
     str_of (item_name (ol_item i)) @ '' - R'' @ num_str (ol_total i)"

definition takeOrder :: "tool_env \<Rightarrow> tool_state \<Rightarrow> tool_args \<Rightarrow> tool_result outcome" where
  "takeOrder env st args =
     (case arg_items args of
        None \<Rightarrow> (Inl (undefined_property ''map''), st)
      | Some items \<Rightarrow>
          (case order_lines items of
             Inl e \<Rightarrow> (Inl e, st)
           | Inr orderItems \<Rightarrow>
               (let total = foldl js_add (Fin 0) (map ol_total orderItems);
                    delivery = (case arg_delivery args of None \<Rightarrow> False | Some d \<Rightarrow> d);
                    address = (case arg_address args of None \<Rightarrow> [] | Some a \<Rightarrow> a);
                    (t1, st1) = date_now env st;
                    (t2, st2) = date_now env st1;
                    ord = \<lparr>ord_id = ''ORD-'' @ show_nat t1, ord_items = orderItems,
                           ord_total = total,
                           ord_customerName = arg_customerName args,
                           ord_customerPhone = arg_customerPhone args,
                           ord_delivery = delivery, ord_address = address,
                           ord_status = ''pending'', ord_createdAt = t2\<rparr>;
                    st3 = saveOrder env ord st2
                in (Inr \<lparr>success = True,
                         data = OrderData ord
                           (package_sign @ '' Order #'' @ ord_id ord @ '' received!'' @
                            newline @ newline @
                            join newline (map order_line_text orderItems) @
                            newline @ newline @ ''Total: R'' @ num_str total @
                            newline @ newline @
                            (if delivery then truck_sign @ '' Delivery to: '' @ address
                             else house_sign @ '' Pickup'') @
                            newline @ newline @ ''We'' @ apostrophe @ ''ll confirm when ready!'')\<rparr>,
                    st3))))"

text \<open>\<^verbatim>\<open>x || ''\<close> on a string that may be missing.\<close>

definition or_empty :: "string option \<Rightarrow> string" where
  "or_empty x = (case x of None \<Rightarrow> [] | Some s \<Rightarrow> s)"

definition getDirections :: "tool_state \<Rightarrow> tool_result outcome" where
  "getDirections st =
     (case businessConfig st of
        None \<Rightarrow> (Inl (null_property ''location''), st)
      | Some c \<Rightarrow>
          (let loc_part = (\<lambda>f. case cfg_location c of None \<Rightarrow> None | Some l \<Rightarrow> f l);
               url = or_empty (loc_part loc_googleMapsUrl);
               mapsUrl =
                 (if url \<noteq> [] then url
                  else ''https://www.google.com/maps/search/'' @
                       encodeURIComponent (str_of (cfg_name c) @ '' '' @
                                           str_of (loc_part loc_address)));
               address = or_empty (loc_part loc_address);
               city = or_empty (loc_part loc_city)
           in (Inr \<lparr>success = True,
                    data = DirectionsData address city mapsUrl
                      (pin_sign @ '' '' @ str_of (cfg_name c) @ newline @ address @ '', '' @
                       city @ newline @ newline @ ''[Open in Google Maps]('' @ mapsUrl @ '')'')\<rparr>,
               st)))"

text \<open>
  \<^verbatim>\<open>escalate({ reason, customerInfo = '', details = '' })\<close>: it builds the escalation
  record and writes three lines to the console; nothing is stored.
\<close>

definition escalate ::
  "tool_env \<Rightarrow> tool_state \<Rightarrow> string option \<Rightarrow> string option \<Rightarrow> string option \<Rightarrow>
   tool_result outcome" where
  "escalate env st reason customerInfo details =
     (let info = or_empty customerInfo;
          det = or_empty details;
          (t1, st1) = date_now env st;
          (t2, st2) = date_now env st1;
          escalation = \<lparr>esc_id = ''ESC-'' @ show_nat t1, esc_reason = reason,
                         esc_customerInfo = info, esc_details = det,
                         esc_status = ''pending'', esc_createdAt = t2\<rparr>;
          st3 = console_log (siren_sign @ '' ESCALATION: '' @ str_of reason) st2;
          st4 = console_log (''   Customer: '' @ info) st3;
          st5 = console_log (''   Details: '' @ det) st4
      in (Inr \<lparr>success = True,
               data = EscalationData escalation
                 (warning_sign @ '' Your concern has been escalated to our management team. '' @
                  ''They will contact you as soon as possible.'')\<rparr>,
          st5))"

definition escalated_text :: "string option \<Rightarrow> string" where
  "escalated_text customerPhone =
     warning_sign @ '' I'' @ apostrophe @ ''ve escalated your concern to our management. We'' @
     apostrophe @ ''ll contact you shortly at '' @ str_of customerPhone @ ''.''"

definition logged_text :: string where
  "logged_text =
     ''I'' @ apostrophe @ ''m truly so'' @ ''rry about your experience. I'' @ apostrophe @
     ''ve logged your feedback and we'' @ apostrophe @
     ''ll use it to improve. Thank you for letting us know.''"

definition handleComplaint :: "tool_env \<Rightarrow> tool_state \<Rightarrow> tool_args \<Rightarrow> tool_result outcome" where
  "handleComplaint env st args =
     (let urgency = (case arg_urgency args of None \<Rightarrow> ''medium'' | Some u \<Rightarrow> u);
          (t1, st1) = date_now env st;
          (t2, st2) = date_now env st1;
          c = \<lparr>cmpl_id = ''CMPL-'' @ show_nat t1,
               cmpl_customerName = arg_customerName args,
               cmpl_customerPhone = arg_customerPhone args,
               cmpl_issue = arg_issue args, cmpl_urgency = urgency,
               cmpl_status = ''open'', cmpl_createdAt = t2\<rparr>;
          st3 = saveComplaint env c st2;
          response =
            \<lparr>success = True,
             data = ComplaintData c
               (if urgency = ''high'' then escalated_text (arg_customerPhone args)
                else logged_text)\<rparr>
      in if urgency = ''high'' then
           (case escalate env st3
                   (Some (''Customer complaint: '' @ str_of (arg_issue args)))
                   (Some (str_of (arg_customerName args) @ '' - '' @
                          str_of (arg_customerPhone args)))
                   (Some (''Urgency: '' @ urgency)) of
              (Inl e, st4) \<Rightarrow> (Inl e, st4)
            | (Inr _, st4) \<Rightarrow> (Inr response, st4))
         else (Inr response, st3))"

text \<open>
  \<^verbatim>\<open>'*'.repeat(rating)\<close>: the count is truncated towards zero, a missing count is 0 and
  a negative count throws a \<^verbatim>\<open>RangeError\<close>. The limit on the length of a string is not
  modelled.
\<close>

definition star_repeat :: "rat option \<Rightarrow> js_exception + string" where
  "star_repeat rating =
     (case rating of
        None \<Rightarrow> Inr []
      | Some r \<Rightarrow>
          if r \<le> - 1 then Inl (RangeError (''Invalid count value: '' @ num_str (Fin r)))
          else Inr (concat (replicate (nat \<lfloor>r\<rfloor>) star_sign)))"

definition collectFeedback :: "tool_env \<Rightarrow> tool_state \<Rightarrow> tool_args \<Rightarrow> tool_result outcome" where
  "collectFeedback env st args =
     (let comment = or_empty (arg_comment args);
          (t1, st1) = date_now env st;
          (t2, st2) = date_now env st1;
          fb = \<lparr>fb_id = ''FB-'' @ show_nat t1, fb_customerName = arg_customerName args,
                fb_rating = arg_rating args, fb_comment = comment, fb_createdAt = t2\<rparr>
      in case star_repeat (arg_rating args) of
           Inl e \<Rightarrow> (Inl e, st2)
         | Inr stars \<Rightarrow>
             (Inr \<lparr>success = True,
                   data = FeedbackData fb
                     (''Thank you for your feedback! '' @ stars @ '' ('' @
                      num_of (arg_rating args) @ ''/5)'' @ newline @ newline @
                      (if comment \<noteq> [] then ''Your comment: '' @ dquote @ comment @ dquote
                       else []) @
                      newline @ newline @ ''We appreciate your business!'')\<rparr>,
              st2))"

text \<open>
  \<^verbatim>\<open>searchKnowledge\<close>: the loop over the directory runs inside \<^verbatim>\<open>try\<close>, so a file that
  cannot be read, or a missing \<^verbatim>\<open>query\<close>, ends the loop and keeps the results found so
  far.
\<close>

fun scan_knowledge ::
  "string option \<Rightarrow> (string \<times> string option) list \<Rightarrow> (string \<times> string) list \<Rightarrow>
   (string \<times> string) list" where
  "scan_knowledge query [] results = results"
| "scan_knowledge query ((file, content) # files) results =
     (if ends_with file ''.md'' then
        (case content of
           None \<Rightarrow> results
         | Some text \<Rightarrow>
             (case query of
                None \<Rightarrow> results
              | Some q \<Rightarrow>
                  scan_knowledge query files
                    (if str_includes (toLowerCase text) (toLowerCase q)
                     then results @ [(file, take 500 text)] else results)))
      else scan_knowledge query files results)"

definition searchKnowledge :: "tool_env \<Rightarrow> tool_state \<Rightarrow> string option \<Rightarrow> tool_result outcome" where
  "searchKnowledge env st query =
     (let results = (case knowledge_dir env of
                       None \<Rightarrow> []
                     | Some files \<Rightarrow> scan_knowledge query files [])
      in (Inr \<lparr>success = True,
               data = KnowledgeData query results
                 (if length results > 0
                  then ''Found '' @ show_nat (length results) @ '' result(s) for '' @
                       dquote @ str_of query @ dquote
                  else ''No specific information found for '' @ dquote @ str_of query @
                       dquote @ ''. Please contact us directly.'')\<rparr>,
          st))"

definition price_line_of :: "order_item \<Rightarrow> price_line" where
  "price_line_of item =
     \<lparr>pl_name = item_name item, pl_quantity = item_quantity item,
      pl_unitPrice = item_unitPrice item,
      pl_subtotal = js_mul (to_number (item_quantity item)) (to_number (item_unitPrice item))\<rparr>"

definition price_line_text :: "price_line \<Rightarrow> string" where
  "price_line_text i =
     bullet @ '' '' @ num_of (pl_quantity i) @ ''x '' @ str_of (pl_name i) @ '' = R'' @
     num_str (pl_subtotal i)"

definition calculatePrice :: "tool_state \<Rightarrow> order_item list option \<Rightarrow> tool_result outcome" where
  "calculatePrice st items =
     (case items of
        None \<Rightarrow> (Inl (undefined_property ''map''), st)
      | Some its \<Rightarrow>
          (let breakdown = map price_line_of its;
               total = foldl js_add (Fin 0) (map pl_subtotal breakdown)
           in (Inr \<lparr>success = True,
                    data = PriceData breakdown total
                      (join newline (map price_line_text breakdown) @ newline @ newline @
                       ''Total: R'' @ num_str total)\<rparr>,
               st)))"

subsection \<open>Dispatch\<close>

text \<open>
  The names in the \<^verbatim>\<open>switch\<close> of \<^verbatim>\<open>execute\<close>, in its order; they are the names of
  \<^verbatim>\<open>toolDefinitions\<close>, in the same order.
\<close>

definition registered_tools :: "string list" where
  "registered_tools =
     [''get_business_info'', ''get_menu'', ''check_availability'', ''create_booking'',
      ''take_order'', ''get_directions'', ''handle_complaint'', ''collect_feedback'',
      ''escalate'', ''search_knowledge'', ''calculate_price'']"

definition execute :: "tool_env \<Rightarrow> tool_state \<Rightarrow> string \<Rightarrow> tool_args \<Rightarrow> tool_result outcome" where
  "execute env st0 toolName args =
     (let st = loadBusinessConfig env st0
      in if toolName = ''get_business_info'' then getBusinessInfo st
         else if toolName = ''get_menu'' then getMenu st (arg_category args)
         else if toolName = ''check_availability'' then
           checkAvailability st (arg_date args) (arg_time args) (arg_guests args)
         else if toolName = ''create_booking'' then createBooking env st args
         else if toolName = ''take_order'' then takeOrder env st args
         else if toolName = ''get_directions'' then getDirections st
         else if toolName = ''handle_complaint'' then handleComplaint env st args
         else if toolName = ''collect_feedback'' then collectFeedback env st args
         else if toolName = ''escalate'' then
           escalate env st (arg_reason args) (arg_customerInfo args) (arg_details args)
         else if toolName = ''search_knowledge'' then searchKnowledge env st (arg_query args)
         else if toolName = ''calculate_price'' then calculatePrice st (arg_items args)
         else (Inl (Error (''Unknown tool: '' @ toolName)), st))"

section \<open>The gateway\<close>

text \<open>
  The state of the process. \<open>tools\<close> is the executor's state, which also holds the two
  things that the whole process shares, the count of clock readings and the console. The
  other fields are \<^verbatim>\<open>Gateway.sessions\<close>, \<^verbatim>\<open>Gateway.channels\<close>,
  \<^verbatim>\<open>Gateway.clients\<close> (a \<^verbatim>\<open>Set\<close>, kept in insertion order),
  \<^verbatim>\<open>AgentRuntime.conversations\<close>, the number of calls of \<^verbatim>\<open>LLMClient.chat\<close> made so
  far, the calls of \<^verbatim>\<open>Gateway.sendResponse\<close> made so far and the calls of an adapter's
  \<^verbatim>\<open>send\<close> made so far, each call as channel name, session id and text. Console
  output is modelled where it is the only effect of a step; progress logging is left out.
\<close>

record metadata =
  md_senderName :: "string option"
  md_senderPhone :: "string option"
  md_platform :: "string option"

definition no_metadata :: metadata where
  "no_metadata = \<lparr>md_senderName = None, md_senderPhone = None, md_platform = None\<rparr>"

record message =
  role :: string
  content :: string
  timestamp :: nat

record session =
  s_id :: string
  s_messages :: "message list"
  s_channel :: string
  s_metadata :: metadata
  s_lastActive :: nat
  s_customerName :: "string option"
  s_createdAt :: nat

datatype event =
    Incoming string string "string option" string nat
  | Outgoing string string string nat

datatype ready_state = CONNECTING | OPEN | CLOSING | CLOSED

text \<open>
  A dashboard connection: its \<^verbatim>\<open>readyState\<close>, the message of the error that its
  \<^verbatim>\<open>send\<close> throws on an event (\<open>None\<close> when the send succeeds) and the events it has
  been sent.
\<close>

record client =
  readyState :: ready_state
  send_throws :: "event \<Rightarrow> string option"
  received :: "event list"

text \<open>
  A channel adapter, seen from the gateway: what its \<^verbatim>\<open>send(sessionId, text)\<close> throws,
  \<open>None\<close> when it returns.
\<close>

record adapter =
  send_outcome :: "string \<Rightarrow> string \<Rightarrow> js_exception option"

record world =
  tools :: tool_state
  sessions :: "string \<rightharpoonup> session"
  channels :: "string \<rightharpoonup> adapter"
  clients :: "client list"
  conversations :: "string \<rightharpoonup> message list"
  llm_calls :: nat
  responses :: "(string \<times> string \<times> string) list"
  channel_sends :: "(string \<times> string \<times> string) list"

definition now :: "tool_env \<Rightarrow> world \<Rightarrow> nat \<times> world" where
  "now env w = (let (t, st) = date_now env (tools w) in (t, w\<lparr>tools := st\<rparr>))"

definition console_error :: "string \<Rightarrow> world \<Rightarrow> world" where
  "console_error line w = w\<lparr>tools := console_log line (tools w)\<rparr>"

text \<open>
  \<^verbatim>\<open>broadcast\<close>: every client whose connection is open is sent the event; an error of a
  \<^verbatim>\<open>send\<close> is caught and logged, and the loop goes on.
\<close>

fun broadcast_to :: "event \<Rightarrow> client list \<Rightarrow> client list \<times> string list" where
  "broadcast_to ev [] = ([], [])"
| "broadcast_to ev (c # cs) =
     (let (cs', errs) = broadcast_to ev cs
      in if readyState c = OPEN then
           (case send_throws c ev of
              None \<Rightarrow> (c\<lparr>received := received c @ [ev]\<rparr> # cs', errs)
            | Some msg \<Rightarrow> (c # cs', (cross_sign @ '' Broadcast error: '' @ msg) # errs))
         else (c # cs', errs))"

definition broadcast :: "event \<Rightarrow> world \<Rightarrow> world" where
  "broadcast ev w =
     (let (cs', errs) = broadcast_to ev (clients w)
      in foldl (\<lambda>w' line. console_error line w') (w\<lparr>clients := cs'\<rparr>) errs)"

definition routeMessage ::
  "tool_env \<Rightarrow> world \<Rightarrow> string \<Rightarrow> string \<Rightarrow> string \<Rightarrow> metadata \<Rightarrow> world" where
  "routeMessage env w channelName sessionId text md =
     (let w1 = (case sessions w sessionId of
                  Some _ \<Rightarrow> w
                | None \<Rightarrow>
                    (let (t1, wa) = now env w;
                         (t2, wb) = now env wa
                     in wb\<lparr>sessions := (sessions wb)(sessionId \<mapsto>
                          \<lparr>s_id = sessionId, s_messages = [], s_channel = channelName,
                           s_metadata = md, s_lastActive = t1,
                           s_customerName = (case md_senderName md of
                                               None \<Rightarrow> None
                                             | Some n \<Rightarrow> if n = [] then None else Some n),
                           s_createdAt = t2\<rparr>)\<rparr>));
          (t3, w2) = now env w1;
          (t4, w3) = now env w2;
          w4 = (case sessions w3 sessionId of
                  None \<Rightarrow> w3
                | Some s \<Rightarrow>
                    w3\<lparr>sessions := (sessions w3)(sessionId \<mapsto>
                         s\<lparr>s_lastActive := t3,
                           s_messages := s_messages s @
                             [\<lparr>role = ''user'', content = text, timestamp = t4\<rparr>]\<rparr>)\<rparr>);
          (t5, w5) = now env w4
      in broadcast (Incoming channelName sessionId (md_senderName md) text t5) w5)"

definition sendResponse ::
  "tool_env \<Rightarrow> world \<Rightarrow> string \<Rightarrow> string \<Rightarrow> string \<Rightarrow> (js_exception + unit) \<times> world" where
  "sendResponse env w0 channelName sessionId response =
     (let w = w0\<lparr>responses := responses w0 @ [(channelName, sessionId, response)]\<rparr>;
          w2 = (case sessions w sessionId of
                  None \<Rightarrow> w
                | Some s \<Rightarrow>
                    (let (t1, w1) = now env w
                     in w1\<lparr>sessions := (sessions w1)(sessionId \<mapsto>
                          s\<lparr>s_messages := s_messages s @
                              [\<lparr>role = ''assistant'', content = response, timestamp = t1\<rparr>]\<rparr>)\<rparr>));
          (t2, w3) = now env w2;
          w4 = broadcast (Outgoing channelName sessionId response t2) w3
      in case channels w4 channelName of
           None \<Rightarrow> (Inr (), w4)
         | Some ch \<Rightarrow>
             (let w5 = w4\<lparr>channel_sends := channel_sends w4 @ [(channelName, sessionId, response)]\<rparr>
              in case send_outcome ch sessionId response of
                   None \<Rightarrow> (Inr (), w5)
                 | Some e \<Rightarrow> (Inl e, w5)))"


definition getSession :: "world \<Rightarrow> string \<Rightarrow> session option" where
  "getSession w sessionId = sessions w sessionId"

section \<open>The language-model client\<close>

text \<open>
  A tool call of a model response. \<open>tc_arguments\<close> is what \<^verbatim>\<open>JSON.parse\<close> makes of the
  call's argument text: the argument object, or the \<^verbatim>\<open>SyntaxError\<close> it throws.
\<close>

record tool_call =
  tc_id :: "string option"
  tc_name :: string
  tc_arguments :: "js_exception + tool_args"

record llm_response =
  r_content :: string
  r_toolCalls :: "tool_call list option"

datatype chat_message =
    Plain string string
  | AssistantToolCall tool_call
  | ToolMessage string tool_result

text \<open>
  The client: its provider name, the environment variable \<^verbatim>\<open>OLLAMA_BASE_URL\<close>, and the
  two remote services as functions of the number of earlier calls of \<^verbatim>\<open>chat\<close> and of
  the messages sent: the configured provider (\<^verbatim>\<open>_callOpenAI\<close> or
  \<^verbatim>\<open>_callAnthropic\<close>) and the Ollama fallback.
\<close>

record llm_client =
  provider :: string
  ollama_base_url :: "string option"
  primary :: "nat \<Rightarrow> chat_message list \<Rightarrow> js_exception + llm_response"
  fallback :: "nat \<Rightarrow> chat_message list \<Rightarrow> js_exception + llm_response"

definition fallback_configured :: "llm_client \<Rightarrow> bool" where
  "fallback_configured c =
     (provider c \<noteq> ''ollama'' \<and>
      (case ollama_base_url c of None \<Rightarrow> False | Some u \<Rightarrow> u \<noteq> []))"

definition chat :: "llm_client \<Rightarrow> nat \<Rightarrow> chat_message list \<Rightarrow> js_exception + llm_response" where
  "chat c k messages =
     (case primary c k messages of
        Inr r \<Rightarrow> Inr r
      | Inl error \<Rightarrow>
          if fallback_configured c then
            (case fallback c k messages of
               Inr r \<Rightarrow> Inr r
             | Inl _ \<Rightarrow> Inl error)
          else Inl error)"

section \<open>The agent runtime\<close>

text \<open>
  The memory store (\<^verbatim>\<open>src/memory/store.js\<close>) is a collaborator of the runtime; the two
  methods that \<^verbatim>\<open>handleMessage\<close> calls are taken as functions. \<open>cu_preferences\<close> is the
  \<^verbatim>\<open>JSON.stringify\<close> of the customer's preferences.
\<close>

record customer =
  cu_name :: "string option"
  cu_preferences :: "string option"
  cu_visitCount :: "nat option"

record memory_store =
  getCustomer :: "string \<Rightarrow> js_exception + customer"
  learnFromConversation :: "string \<Rightarrow> (string \<times> string) list \<Rightarrow> js_exception option"

record runtime_env =
  tool_env :: tool_env
  llm :: "llm_client option"
  memoryStore :: "memory_store option"
  systemPrompt :: string

definition maxToolCalls :: nat where
  "maxToolCalls = 5"

text \<open>\<^verbatim>\<open>xs.slice(-n)\<close> for a positive \<open>n\<close>: the last \<open>n\<close> elements.\<close>

definition slice_last :: "nat \<Rightarrow> 'a list \<Rightarrow> 'a list" where
  "slice_last n xs = drop (length xs - n) xs"

definition getConversationHistory :: "world \<Rightarrow> string \<Rightarrow> (string \<times> string) list" where
  "getConversationHistory w sessionId =
     (case conversations w sessionId of
        None \<Rightarrow> []
      | Some msgs \<Rightarrow> map (\<lambda>m. (role m, content m)) (slice_last 10 msgs))"

definition saveToHistory :: "tool_env \<Rightarrow> world \<Rightarrow> string \<Rightarrow> string \<Rightarrow> string \<Rightarrow> world" where
  "saveToHistory env w sessionId userMessage assistantMessage =
     (let old = (case conversations w sessionId of None \<Rightarrow> [] | Some msgs \<Rightarrow> msgs);
          (t1, w1) = now env w;
          (t2, w2) = now env w1;
          pushed = old @ [\<lparr>role = ''user'', content = userMessage, timestamp = t1\<rparr>,
                          \<lparr>role = ''assistant'', content = assistantMessage, timestamp = t2\<rparr>];
          kept = (if length pushed > 50 then slice_last 50 pushed else pushed)
      in w2\<lparr>conversations := (conversations w2)(sessionId \<mapsto> kept)\<rparr>)"

text \<open>The customer context that is appended to the system prompt.\<close>

definition customer_context :: "customer \<Rightarrow> string" where
  "customer_context c =
     (let has_name = (case cu_name c of None \<Rightarrow> False | Some n \<Rightarrow> n \<noteq> []);
          has_prefs = (cu_preferences c \<noteq> None);
          has_visits = (case cu_visitCount c of None \<Rightarrow> False | Some n \<Rightarrow> n \<noteq> 0)
      in if has_name \<or> has_prefs then
           newline @ newline @ ''## Customer Context'' @ newline @
           (if has_name then ''- Name: '' @ or_empty (cu_name c) @ newline else []) @
           (if has_prefs then ''- Preferences: '' @ or_empty (cu_preferences c) @ newline
            else []) @
           (if has_visits
            then ''- Previous visits: '' @
                 show_nat (case cu_visitCount c of None \<Rightarrow> 0 | Some n \<Rightarrow> n) @ newline
            else [])
         else [])"

text \<open>\<^verbatim>\<open>metadata?.senderPhone\<close> when it is truthy.\<close>

definition sender_phone :: "metadata \<Rightarrow> string option" where
  "sender_phone md =
     (case md_senderPhone md of None \<Rightarrow> None | Some p \<Rightarrow> if p = [] then None else Some p)"

text \<open>
  The variables of the loop in \<^verbatim>\<open>handleMessage\<close>: the message list,
  \<^verbatim>\<open>response.toolCalls\<close>, \<^verbatim>\<open>finalResponse\<close> and \<^verbatim>\<open>toolCallCount\<close>.
\<close>

record loop_state =
  messages :: "chat_message list"
  toolCalls :: "tool_call list option"
  finalResponse :: string
  toolCallCount :: nat

text \<open>One call of \<^verbatim>\<open>this.llm.chat\<close>; \<^verbatim>\<open>this.llm\<close> is \<^verbatim>\<open>null\<close> when the client could
  not be constructed.\<close>

definition llm_chat ::
  "runtime_env \<Rightarrow> world \<Rightarrow> chat_message list \<Rightarrow> (js_exception + llm_response) \<times> world" where
  "llm_chat env w msgs =
     (case llm env of
        None \<Rightarrow> (Inl (null_property ''chat''), w)
      | Some c \<Rightarrow> (chat c (llm_calls w) msgs, w\<lparr>llm_calls := Suc (llm_calls w)\<rparr>))"

text \<open>The \<^verbatim>\<open>for\<close> loop over the tool calls of one response.\<close>

fun run_tool_calls ::
  "runtime_env \<Rightarrow> tool_call list \<Rightarrow> chat_message list \<Rightarrow> world \<Rightarrow>
   (js_exception + chat_message list) \<times> world" where
  "run_tool_calls env [] msgs w = (Inr msgs, w)"
| "run_tool_calls env (toolCall # rest) msgs w =
     (case tc_arguments toolCall of
        Inl e \<Rightarrow> (Inl e, w)
      | Inr toolArgs \<Rightarrow>
          (case execute (tool_env env) (tools w) (tc_name toolCall) toolArgs of
             (Inl e, st) \<Rightarrow> (Inl e, w\<lparr>tools := st\<rparr>)
           | (Inr result, st) \<Rightarrow>
               run_tool_calls env rest
                 (msgs @ [AssistantToolCall toolCall,
                          ToolMessage (case tc_id toolCall of
                                         None \<Rightarrow> ''call_'' @ tc_name toolCall
                                       | Some i \<Rightarrow> if i = [] then ''call_'' @ tc_name toolCall
                                                   else i)
                                      result])
                 (w\<lparr>tools := st\<rparr>)))"

text \<open>
  The \<^verbatim>\<open>while\<close> loop: \<^verbatim>\<open>response.toolCalls\<close> is truthy when it is not \<^verbatim>\<open>null\<close>, also
  when it is the empty array.
\<close>

function react_loop ::
  "runtime_env \<Rightarrow> loop_state \<Rightarrow> world \<Rightarrow> (js_exception + loop_state) \<times> world" where
  "react_loop env s w =
     (case toolCalls s of
        None \<Rightarrow> (Inr s, w)
      | Some calls \<Rightarrow>
          if toolCallCount s < maxToolCalls then
            (case run_tool_calls env calls (messages s) w of
               (Inl e, w1) \<Rightarrow> (Inl e, w1)
             | (Inr msgs, w1) \<Rightarrow>
                 (case llm_chat env w1 msgs of
                    (Inl e, w2) \<Rightarrow> (Inl e, w2)
                  | (Inr nextResponse, w2) \<Rightarrow>
                      react_loop env
                        \<lparr>messages = msgs, toolCalls = r_toolCalls nextResponse,
                         finalResponse = r_content nextResponse,
                         toolCallCount = Suc (toolCallCount s)\<rparr> w2))
          else (Inr s, w))"
  by pat_completeness auto
termination
  by (relation "measure (\<lambda>(env, s, w). maxToolCalls - toolCallCount s)") auto

declare react_loop.simps [simp del]

record inbound =
  in_channelName :: string
  in_sessionId :: string
  in_message :: string
  in_metadata :: metadata

definition apology :: string where
  "apology =
     ''I apologize, but I encountered an issue processing your request. '' @
     ''Please try again or contact us directly.''"

text \<open>The body of the \<^verbatim>\<open>try\<close> block of \<^verbatim>\<open>handleMessage\<close>.\<close>

definition handleMessage_try ::
  "runtime_env \<Rightarrow> world \<Rightarrow> inbound \<Rightarrow> (js_exception + unit) \<times> world" where
  "handleMessage_try env w inp =
     (let history = getConversationHistory w (in_sessionId inp);
          known = (case memoryStore env of
                     None \<Rightarrow> None
                   | Some store \<Rightarrow>
                       (case sender_phone (in_metadata inp) of
                          None \<Rightarrow> None
                        | Some phone \<Rightarrow> Some (store, phone)))
      in case (case known of
                 None \<Rightarrow> Inr []
               | Some (store, phone) \<Rightarrow>
                   (case getCustomer store phone of
                      Inl e \<Rightarrow> Inl e
                    | Inr c \<Rightarrow> Inr (customer_context c))) of
           Inl e \<Rightarrow> (Inl e, w)
         | Inr customerContext \<Rightarrow>
             (let msgs = [Plain ''system'' (systemPrompt env @ customerContext)] @
                         map (\<lambda>(r, c). Plain r c) history @
                         [Plain ''user'' (in_message inp)]
              in case llm_chat env w msgs of
                   (Inl e, w1) \<Rightarrow> (Inl e, w1)
                 | (Inr response, w1) \<Rightarrow>
                     (case react_loop env
                             \<lparr>messages = msgs, toolCalls = r_toolCalls response,
                              finalResponse = r_content response, toolCallCount = 0\<rparr> w1 of
                        (Inl e, w2) \<Rightarrow> (Inl e, w2)
                      | (Inr s, w2) \<Rightarrow>
                          (let w3 = saveToHistory (tool_env env) w2 (in_sessionId inp)
                                      (in_message inp) (finalResponse s)
                           in case (case known of
                                      None \<Rightarrow> None
                                    | Some (store, phone) \<Rightarrow>
                                        learnFromConversation store phone
                                          [(''user'', in_message inp),
                                           (''assistant'', finalResponse s)]) of
                                Some e \<Rightarrow> (Inl e, w3)
                              | None \<Rightarrow>
                                  sendResponse (tool_env env) w3 (in_channelName inp)
                                    (in_sessionId inp) (finalResponse s)))))"

text \<open>
  \<^verbatim>\<open>handleMessage\<close>: whatever the \<^verbatim>\<open>try\<close> block throws is caught, and the apology is sent
  in its place.
\<close>

definition handleMessage ::
  "runtime_env \<Rightarrow> world \<Rightarrow> inbound \<Rightarrow> (js_exception + unit) \<times> world" where
  "handleMessage env w inp =
     (case handleMessage_try env w inp of
        (Inr u, w1) \<Rightarrow> (Inr u, w1)
      | (Inl err, w1) \<Rightarrow>
          sendResponse (tool_env env) w1 (in_channelName inp) (in_sessionId inp) apology)"


text \<open>\<^verbatim>\<open>processAdminMessage\<close>: a message typed in the dashboard, for a session that exists.\<close>

definition processAdminMessage ::
  "runtime_env \<Rightarrow> world \<Rightarrow> string \<Rightarrow> string \<Rightarrow> (js_exception + unit) \<times> world" where
  "processAdminMessage env w sessionId text =
     (case getSession w sessionId of
        None \<Rightarrow> (Inr (), w)
      | Some _ \<Rightarrow>
          handleMessage env w
            \<lparr>in_channelName = ''admin'', in_sessionId = sessionId, in_message = text,
             in_metadata = no_metadata\<lparr>md_senderName := Some ''Admin''\<rparr>\<rparr>)"

section \<open>The WhatsApp adapter\<close>

text \<open>
  An incoming message: the sender's address \<^verbatim>\<open>msg.key.remoteJid\<close> and the text,
  \<^verbatim>\<open>msg.message?.conversation || msg.message?.extendedTextMessage?.text || ''\<close>. The
  adapter's state: whether the socket exists, and the calls of \<^verbatim>\<open>socket.sendMessage\<close>
  made so far as pairs of address and text; an error of that call is caught and logged.
\<close>

record wa_message =
  remoteJid :: string
  conversation :: "string option"
  extendedText :: "string option"

record whatsapp =
  socket :: bool
  wa_sent :: "(string \<times> string) list"

text \<open>\<^verbatim>\<open>jid.split('@')[0]\<close>.\<close>

definition sender_of :: "string \<Rightarrow> string" where
  "sender_of jid = takeWhile (\<lambda>c. c \<noteq> CHR ''@'') jid"

definition session_id_of :: "string \<Rightarrow> string" where
  "session_id_of sender = ''wa_'' @ sender"

definition handleIncomingMessage :: "tool_env \<Rightarrow> world \<Rightarrow> wa_message \<Rightarrow> world" where
  "handleIncomingMessage env w msg =
     (let sender = sender_of (remoteJid msg);
          messageText = (if or_empty (conversation msg) \<noteq> [] then or_empty (conversation msg)
                         else or_empty (extendedText msg))
      in if messageText = [] then w
         else routeMessage env w ''whatsapp'' (session_id_of sender) messageText
                \<lparr>md_senderName = Some sender, md_senderPhone = Some sender,
                 md_platform = Some ''whatsapp''\<rparr>)"



section \<open>Observations\<close>

text \<open>
  An exception made with \<^verbatim>\<open>new Error(message)\<close>: it has the class \<^verbatim>\<open>Error\<close> itself and
  no type of its own.
\<close>

fun is_generic :: "js_exception \<Rightarrow> bool" where
  "is_generic (Error _) = True"
| "is_generic _ = False"

text \<open>An outcome that is an exception.\<close>

definition throws :: "'a outcome \<Rightarrow> bool" where
  "throws out = isl (fst out)"

text \<open>
  What the schema of \<^verbatim>\<open>take_order\<close> in \<^verbatim>\<open>toolDefinitions\<close> requires: \<^verbatim>\<open>items\<close>,
  \<^verbatim>\<open>customerName\<close> and \<^verbatim>\<open>customerPhone\<close>, and of every item its \<^verbatim>\<open>name\<close> and
  \<^verbatim>\<open>quantity\<close>.
\<close>

definition item_conforms :: "order_item \<Rightarrow> bool" where
  "item_conforms i = (item_name i \<noteq> None \<and> item_quantity i \<noteq> None)"

definition take_order_conforms :: "tool_args \<Rightarrow> bool" where
  "take_order_conforms a =
     ((case arg_items a of None \<Rightarrow> False | Some items \<Rightarrow> list_all item_conforms items) \<and>
      arg_customerName a \<noteq> None \<and> arg_customerPhone a \<noteq> None)"

text \<open>The id of the record that a result carries, if it carries one.\<close>

fun result_id :: "tool_data \<Rightarrow> string option" where
  "result_id (BookingData b _) = Some (bk_id b)"
| "result_id (OrderData ord _) = Some (ord_id ord)"
| "result_id (ComplaintData c _) = Some (cmpl_id c)"
| "result_id (FeedbackData f _) = Some (fb_id f)"
| "result_id (EscalationData e _) = Some (esc_id e)"
| "result_id _ = None"

definition assigned_id :: "tool_result outcome \<Rightarrow> string option" where
  "assigned_id out = (case fst out of Inl _ \<Rightarrow> None | Inr r \<Rightarrow> result_id (data r))"

text \<open>The tools that assign an id, and the literal that each puts before the clock reading.\<close>

definition id_tools :: "string list" where
  "id_tools =
     [''create_booking'', ''take_order'', ''handle_complaint'', ''collect_feedback'',
      ''escalate'']"

definition id_prefix :: "string \<Rightarrow> string" where
  "id_prefix toolName =
     (if toolName = ''create_booking'' then ''BK-''
      else if toolName = ''take_order'' then ''ORD-''
      else if toolName = ''handle_complaint'' then ''CMPL-''
      else if toolName = ''collect_feedback'' then ''FB-''
      else ''ESC-'')"



text \<open>
  The runtime's log of a session, the gateway's log of a session, and a message without
  its time stamp.
\<close>

definition log_of :: "world \<Rightarrow> string \<Rightarrow> message list" where
  "log_of w sessionId = (case conversations w sessionId of None \<Rightarrow> [] | Some msgs \<Rightarrow> msgs)"

definition session_log :: "world \<Rightarrow> string \<Rightarrow> message list" where
  "session_log w sessionId =
     (case sessions w sessionId of None \<Rightarrow> [] | Some s \<Rightarrow> s_messages s)"

definition role_content :: "message \<Rightarrow> string \<times> string" where
  "role_content m = (role m, content m)"

text \<open>
  A sequence of finished turns, each a session id with the user's text and the reply, saved
  one after the other by \<^verbatim>\<open>saveToHistory\<close>; the messages that the turns of one session
  contribute, in order; and a sequence of inbound messages of one sender, routed one after
  the other.
\<close>

definition save_turns :: "tool_env \<Rightarrow> world \<Rightarrow> (string \<times> string \<times> string) list \<Rightarrow> world" where
  "save_turns env w turns = foldl (\<lambda>w' (sid, u, a). saveToHistory env w' sid u a) w turns"

definition turn_messages ::
  "string \<Rightarrow> (string \<times> string \<times> string) list \<Rightarrow> (string \<times> string) list" where
  "turn_messages sessionId turns =
     concat (map (\<lambda>(sid, u, a). if sid = sessionId then [(''user'', u), (''assistant'', a)]
                                 else []) turns)"

definition route_many ::
  "tool_env \<Rightarrow> world \<Rightarrow> string \<Rightarrow> string \<Rightarrow> string list \<Rightarrow> world" where
  "route_many env w channelName sessionId texts =
     foldl (\<lambda>w' text. routeMessage env w' channelName sessionId text no_metadata) w texts"

text \<open>
  Between the arrival of a message and the reply, the runtime changes only its own
  conversation store and the count of model calls; everything the gateway owns stays.
\<close>

definition gateway_untouched :: "world \<Rightarrow> world \<Rightarrow> bool" where
  "gateway_untouched w w' =
     (sessions w' = sessions w \<and> channels w' = channels w \<and> clients w' = clients w \<and>
      responses w' = responses w \<and> channel_sends w' = channel_sends w)"

section \<open>Sample inputs\<close>

text \<open>
  A clock that advances by one millisecond per reading and one that stands still, with no
  configuration file and a disk that can be written; a process that has just started, alone
  and with a WhatsApp adapter whose \<^verbatim>\<open>send\<close> returns.
\<close>

definition sample_env :: tool_env where
  "sample_env =
     \<lparr>clock = (\<lambda>k. 1700000000000 + k), config_file = None, disk_error = None,
      knowledge_dir = None\<rparr>"

definition frozen_env :: tool_env where
  "frozen_env =
     \<lparr>clock = (\<lambda>k. 1700000000000), config_file = None, disk_error = None,
      knowledge_dir = None\<rparr>"

definition fresh_tools :: tool_state where
  "fresh_tools =
     \<lparr>ticks = 0, businessConfig = None, bookings_file = None, orders_file = None,
      complaints_file = None, console = []\<rparr>"

definition fresh_world :: world where
  "fresh_world =
     \<lparr>tools = fresh_tools, sessions = Map.empty, channels = Map.empty, clients = [],
      conversations = Map.empty, llm_calls = 0, responses = [], channel_sends = []\<rparr>"



text \<open>Arguments of single tool calls.\<close>

definition order_without_price :: tool_args where
  "order_without_price =
     no_args\<lparr>arg_items := Some [\<lparr>item_name = Some ''Garlic Naan'', item_quantity = Some 1,
                                   item_price = None, item_unitPrice = None\<rparr>],
             arg_customerName := Some ''Jane'', arg_customerPhone := Some ''0821234567''\<rparr>"


definition table_for_two :: tool_args where
  "table_for_two =
     no_args\<lparr>arg_date := Some ''2026-11-02'', arg_time := Some ''19:00'', arg_guests := Some 2,
             arg_name := Some ''Jane'', arg_phone := Some ''0821234567''\<rparr>"

definition table_for_six :: tool_args where
  "table_for_six =
     no_args\<lparr>arg_date := Some ''2026-11-02'', arg_time := Some ''19:00'', arg_guests := Some 6,
             arg_name := Some ''Sipho'', arg_phone := Some ''0835550100''\<rparr>"

text \<open>
  A runtime log of twelve messages, an event for the dashboard, and two dashboard
  connections, one whose \<^verbatim>\<open>send\<close> throws and one whose \<^verbatim>\<open>send\<close> returns.
\<close>

definition sample_message :: message where
  "sample_message = \<lparr>role = ''user'', content = ''hello'', timestamp = 0\<rparr>"

definition chatty_world :: world where
  "chatty_world =
     fresh_world\<lparr>conversations := [''wa_27821234567'' \<mapsto> replicate 12 sample_message]\<rparr>"

definition sample_event :: event where
  "sample_event = Incoming ''whatsapp'' ''wa_27821234567'' (Some ''27821234567'') ''hello'' 0"

definition broken_client :: client where
  "broken_client =
     \<lparr>readyState = OPEN, send_throws = (\<lambda>_. Some ''socket hang up''), received = []\<rparr>"

definition healthy_client :: client where
  "healthy_client = \<lparr>readyState = OPEN, send_throws = (\<lambda>_. None), received = []\<rparr>"








section \<open>Auxiliary facts\<close>

lemma show_nat_numeral:
  "show_nat (numeral k) =
     (if (numeral k :: nat) < 10 then [digit_char (numeral k)]
      else show_nat (numeral k div 10) @ [digit_char (numeral k mod 10)])"
  by (rule show_nat.simps)

lemma show_nat_small: "show_nat 0 = ''0''" "show_nat 1 = ''1''" "show_nat (Suc 0) = ''1''"
  by (simp_all add: show_nat.simps digit_char_def)

lemma show_nat_sample:
  "show_nat 1700000000000 = ''1700000000000''"
  "show_nat 1700000000002 = ''1700000000002''"
  by (simp_all add: show_nat_numeral show_nat_small digit_char_def)

lemma digit_char_inj:
  assumes a: "a < 10" and b: "b < 10" and e: "digit_char a = digit_char b"
  shows "a = b"
proof -
  have d: "distinct ''0123456789''" by simp
  have l: "length ''0123456789'' = 10" by simp
  from e have "''0123456789'' ! a = ''0123456789'' ! b" by (simp add: digit_char_def)
  with d a b l show "a = b" by (metis nth_eq_iff_index_eq)
qed

lemma show_nat_nonempty: "show_nat n \<noteq> []"
  by (subst show_nat.simps) simp

text \<open>Two numbers with the same digits are equal.\<close>

lemma show_nat_inj: "show_nat n = show_nat m \<Longrightarrow> n = m"
proof (induction n arbitrary: m rule: show_nat.induct)
  case (1 n)
  show ?case
  proof (cases "n < 10")
    case n: True
    show ?thesis
    proof (cases "m < 10")
      case True
      with n "1.prems" show ?thesis
        by (simp add: show_nat.simps[of n] show_nat.simps[of m] digit_char_inj)
    next
      case False
      with n "1.prems" show ?thesis
        by (simp add: show_nat.simps[of n] show_nat.simps[of m] show_nat_nonempty[symmetric])
    qed
  next
    case n: False
    show ?thesis
    proof (cases "m < 10")
      case True
      with n "1.prems" show ?thesis
        by (simp add: show_nat.simps[of n] show_nat.simps[of m] show_nat_nonempty)
    next
      case False
      with n "1.prems" have e: "show_nat (n div 10) = show_nat (m div 10)"
        and d: "digit_char (n mod 10) = digit_char (m mod 10)"
        by (simp_all add: show_nat.simps[of n] show_nat.simps[of m])
      from "1.IH"[OF n e] have q: "n div 10 = m div 10" .
      from d have r: "n mod 10 = m mod 10" by (simp add: digit_char_inj)
      from q r show ?thesis by (metis div_mult_mod_eq)
    qed
  qed
qed

lemma ticks_load [simp]: "ticks (loadBusinessConfig env st) = ticks st"
  by (simp add: loadBusinessConfig_def console_log_def split: option.splits)


lemma escalate_not_Inl [simp]: "escalate env st r c d \<noteq> (Inl e, st')"
  by (simp add: escalate_def date_now_def Let_def)


subsection \<open>Dispatch and ids\<close>

lemma execute_create_booking:
  "execute env st ''create_booking'' a = createBooking env (loadBusinessConfig env st) a"
  by (simp add: execute_def)

lemma execute_take_order:
  "execute env st ''take_order'' a = takeOrder env (loadBusinessConfig env st) a"
  by (simp add: execute_def)

lemma execute_handle_complaint:
  "execute env st ''handle_complaint'' a = handleComplaint env (loadBusinessConfig env st) a"
  by (simp add: execute_def)

lemma execute_collect_feedback:
  "execute env st ''collect_feedback'' a = collectFeedback env (loadBusinessConfig env st) a"
  by (simp add: execute_def)

lemma execute_escalate:
  "execute env st ''escalate'' a =
     escalate env (loadBusinessConfig env st) (arg_reason a) (arg_customerInfo a) (arg_details a)"
  by (simp add: execute_def)

lemma id_createBooking:
  "assigned_id (createBooking env st a) = Some (''BK-'' @ show_nat (clock env (ticks st)))"
  by (simp add: assigned_id_def createBooking_def date_now_def Let_def)

lemma id_escalate:
  "assigned_id (escalate env st r c d) = Some (''ESC-'' @ show_nat (clock env (ticks st)))"
  by (simp add: assigned_id_def escalate_def date_now_def Let_def)

lemma id_handleComplaint:
  "assigned_id (handleComplaint env st a) = Some (''CMPL-'' @ show_nat (clock env (ticks st)))"
  by (simp add: assigned_id_def handleComplaint_def date_now_def Let_def
      split: prod.splits sum.splits)

lemma id_takeOrder:
  "assigned_id (takeOrder env st a) = Some i \<Longrightarrow>
   i = ''ORD-'' @ show_nat (clock env (ticks st))"
  by (clarsimp simp: assigned_id_def takeOrder_def date_now_def Let_def
      split: option.splits sum.splits)

lemma id_collectFeedback:
  "assigned_id (collectFeedback env st a) = Some i \<Longrightarrow>
   i = ''FB-'' @ show_nat (clock env (ticks st))"
  by (clarsimp simp: assigned_id_def collectFeedback_def date_now_def Let_def
      split: option.splits sum.splits)

lemma id_tools_iff:
  "n \<in> set id_tools \<longleftrightarrow>
     n = ''create_booking'' \<or> n = ''take_order'' \<or> n = ''handle_complaint'' \<or>
     n = ''collect_feedback'' \<or> n = ''escalate''"
  unfolding id_tools_def by (simp only: set_simps insert_iff empty_iff simp_thms)

lemma id_tools_cases:
  assumes "n \<in> set id_tools"
  obtains "n = ''create_booking''" | "n = ''take_order''" | "n = ''handle_complaint''"
    | "n = ''collect_feedback''" | "n = ''escalate''"
  using assms unfolding id_tools_iff
  apply (elim disjE)
      apply (erule that(1))
     apply (erule that(2))
    apply (erule that(3))
   apply (erule that(4))
  apply (erule that(5))
  done

lemma execute_id:
  assumes n: "n \<in> set id_tools" and i: "assigned_id (execute env st n a) = Some i"
  shows "i = id_prefix n @ show_nat (clock env (ticks st))"
  using n
proof (cases rule: id_tools_cases)
  case 1
  with i show ?thesis by (simp add: execute_create_booking id_prefix_def id_createBooking)
next
  case 2
  with i id_takeOrder[of env "loadBusinessConfig env st" a i] show ?thesis
    by (simp add: execute_take_order id_prefix_def)
next
  case 3
  with i show ?thesis by (simp add: execute_handle_complaint id_prefix_def id_handleComplaint)
next
  case 4
  with i id_collectFeedback[of env "loadBusinessConfig env st" a i] show ?thesis
    by (simp add: execute_collect_feedback id_prefix_def)
next
  case 5
  with i show ?thesis by (simp add: execute_escalate id_prefix_def id_escalate)
qed

lemma id_prefix_eq:
  assumes "n1 \<in> set id_tools" and "n2 \<in> set id_tools"
  shows "(id_prefix n1 @ x = id_prefix n2 @ y) = (n1 = n2 \<and> x = y)"
  using assms(1)
proof (cases rule: id_tools_cases)
  case 1
  from assms(2) show ?thesis by (cases rule: id_tools_cases) (simp_all add: 1 id_prefix_def)
next
  case 2
  from assms(2) show ?thesis by (cases rule: id_tools_cases) (simp_all add: 2 id_prefix_def)
next
  case 3
  from assms(2) show ?thesis by (cases rule: id_tools_cases) (simp_all add: 3 id_prefix_def)
next
  case 4
  from assms(2) show ?thesis by (cases rule: id_tools_cases) (simp_all add: 4 id_prefix_def)
next
  case 5
  from assms(2) show ?thesis by (cases rule: id_tools_cases) (simp_all add: 5 id_prefix_def)
qed

subsection \<open>Broadcast and history\<close>

lemma clients_console_error:
  "clients (foldl (\<lambda>w' line. console_error line w') w errs) = clients w"
  by (induction errs arbitrary: w) (simp_all add: console_error_def)

lemma fst_broadcast_to:
  "fst (broadcast_to ev cs) =
     map (\<lambda>c. if readyState c = OPEN \<and> send_throws c ev = None
               then c\<lparr>received := received c @ [ev]\<rparr> else c) cs"
  by (induction cs) (simp_all add: case_prod_unfold Let_def split: option.splits)

lemma length_slice_last: "length (slice_last n xs) \<le> n"
  unfolding slice_last_def by (simp; arith)

lemma slice_last_map: "slice_last n (map f xs) = map f (slice_last n xs)"
  by (simp add: slice_last_def drop_map)

subsection \<open>Gateway operations\<close>

lemma now_eq:
  "now env w =
     (clock env (ticks (tools w)), w\<lparr>tools := (tools w)\<lparr>ticks := Suc (ticks (tools w))\<rparr>\<rparr>)"
  by (simp add: now_def date_now_def)

lemma fold_console_error:
  "foldl (\<lambda>w' line. console_error line w') w errs =
     w\<lparr>tools := foldl (\<lambda>st line. console_log line st) (tools w) errs\<rparr>"
  by (induction errs arbitrary: w) (simp_all add: console_error_def)

lemma broadcast_eq:
  "broadcast ev w =
     w\<lparr>clients := fst (broadcast_to ev (clients w)),
       tools := foldl (\<lambda>st line. console_log line st) (tools w) (snd (broadcast_to ev (clients w)))\<rparr>"
  by (simp add: broadcast_def case_prod_unfold Let_def fold_console_error)

lemma routeMessage_log:
  "map role_content (session_log (routeMessage env w ch sid text md) sid) =
     map role_content (session_log w sid) @ [(''user'', text)]"
  by (simp add: routeMessage_def now_eq broadcast_eq Let_def session_log_def role_content_def
      split: option.splits)


lemma sendResponse_effect:
  "responses (snd (sendResponse env w ch sid r)) = responses w @ [(ch, sid, r)]"
  "map role_content (session_log (snd (sendResponse env w ch sid r)) sid) =
     (if sessions w sid = None then [] else map role_content (session_log w sid) @ [(''assistant'', r)])"
  "channel_sends (snd (sendResponse env w ch sid r)) =
     (if channels w ch = None then channel_sends w else channel_sends w @ [(ch, sid, r)])"
  "llm_calls (snd (sendResponse env w ch sid r)) = llm_calls w"
  "conversations (snd (sendResponse env w ch sid r)) = conversations w"
  by (simp_all add: sendResponse_def now_eq broadcast_eq Let_def session_log_def role_content_def
      split: option.splits)

lemma sendResponse_returns:
  assumes "\<forall>a. channels w ch = Some a \<longrightarrow> send_outcome a sid r = None"
  shows "fst (sendResponse env w ch sid r) = Inr ()"
  using assms
  by (simp add: sendResponse_def now_eq broadcast_eq Let_def split: option.splits)


lemma route_many_length:
  "length (session_log (route_many env w ch sid texts) sid) = length (session_log w sid) + length texts"
proof (induction texts arbitrary: w)
  case Nil
  show ?case by (simp add: route_many_def)
next
  case (Cons t texts)
  have "length (map role_content (session_log (routeMessage env w ch sid t no_metadata) sid)) =
      Suc (length (session_log w sid))"
    by (simp only: routeMessage_log) simp
  then have 1: "length (session_log (routeMessage env w ch sid t no_metadata) sid) =
      Suc (length (session_log w sid))" by simp
  have 2: "route_many env w ch sid (t # texts) =
      route_many env (routeMessage env w ch sid t no_metadata) ch sid texts"
    by (simp add: route_many_def)
  show ?case unfolding 2 by (simp add: Cons.IH 1)
qed

subsection \<open>The history cap\<close>

lemma slice_last_short: "length xs \<le> n \<Longrightarrow> slice_last n xs = xs"
  by (simp add: slice_last_def)

lemma slice_last_idem: "slice_last n (slice_last n xs @ ys) = slice_last n (xs @ ys)"
proof (cases "length xs \<le> n")
  case True
  then show ?thesis by (simp add: slice_last_short)
next
  case False
  then have l: "length (slice_last n xs) = n" by (simp add: slice_last_def)
  show ?thesis
  proof (cases "length ys \<le> n")
    case True
    with False show ?thesis by (simp add: slice_last_def add.commute)
  next
    case y: False
    with False show ?thesis by (simp add: slice_last_def)
  qed
qed

lemma log_saveToHistory:
  "map role_content (log_of (saveToHistory env w s u a) sid) =
     (if s = sid
      then slice_last 50 (map role_content (log_of w sid) @ [(''user'', u), (''assistant'', a)])
      else map role_content (log_of w sid))"
  by (simp add: saveToHistory_def log_of_def now_eq Let_def role_content_def
      slice_last_def drop_map split: option.splits)

lemma length_log_saveToHistory:
  "length (log_of w sid) \<le> 50 \<Longrightarrow> length (log_of (saveToHistory env w s u a) sid) \<le> 50"
  by (simp add: saveToHistory_def log_of_def now_eq Let_def length_slice_last
      split: option.splits)

lemma save_turns_Cons:
  "save_turns env w ((s, u, a) # turns) = save_turns env (saveToHistory env w s u a) turns"
  by (simp add: save_turns_def)

lemma save_turns_log:
  "length (log_of w sid) \<le> 50 \<Longrightarrow>
   map role_content (log_of (save_turns env w turns) sid) =
     slice_last 50 (map role_content (log_of w sid) @ turn_messages sid turns) \<and>
   length (log_of (save_turns env w turns) sid) \<le> 50"
proof (induction turns arbitrary: w)
  case Nil
  then show ?case by (simp add: save_turns_def turn_messages_def slice_last_short)
next
  case (Cons t turns)
  obtain s u a where t: "t = (s, u, a)" by (cases t)
  let ?w = "saveToHistory env w s u a"
  have l: "length (log_of ?w sid) \<le> 50"
    using Cons.prems by (rule length_log_saveToHistory)
  have tm: "turn_messages sid (t # turns) =
      (if s = sid then [(''user'', u), (''assistant'', a)] else []) @ turn_messages sid turns"
    by (simp add: turn_messages_def t)
  from Cons.IH[OF l] show ?case
    unfolding t save_turns_Cons
    by (simp add: log_saveToHistory tm slice_last_idem del: append_Cons)
       (simp add: turn_messages_def t slice_last_idem)
qed

subsection \<open>The turn\<close>
























subsection \<open>What a turn leaves alone before it replies\<close>

lemma gateway_untouched_refl [simp]: "gateway_untouched w w"
  by (simp add: gateway_untouched_def)

lemma gateway_untouched_trans:
  "gateway_untouched w w1 \<Longrightarrow> gateway_untouched w1 w2 \<Longrightarrow> gateway_untouched w w2"
  by (simp add: gateway_untouched_def)

lemma run_tool_calls_untouched: "gateway_untouched w (snd (run_tool_calls env calls msgs w))"
  by (induction calls arbitrary: msgs w)
     (auto simp: gateway_untouched_def split: sum.splits prod.splits)


lemma llm_chat_untouched: "gateway_untouched w (snd (llm_chat env w msgs))"
  by (simp add: llm_chat_def gateway_untouched_def split: option.splits)

lemma saveToHistory_untouched: "gateway_untouched w (saveToHistory env w sid u a)"
  by (simp add: saveToHistory_def now_eq Let_def gateway_untouched_def)

lemma react_loop_untouched: "gateway_untouched w (snd (react_loop env s w))"
proof (induction env s w rule: react_loop.induct)
  case (1 env s w)
  show ?case
  proof (cases "toolCalls s")
    case None
    then show ?thesis by (subst react_loop.simps) simp
  next
    case (Some calls)
    show ?thesis
    proof (cases "toolCallCount s < maxToolCalls")
      case False
      with Some show ?thesis by (subst react_loop.simps) simp
    next
      case lt: True
      obtain x w1 where run: "run_tool_calls env calls (messages s) w = (x, w1)"
        by (cases "run_tool_calls env calls (messages s) w")
      from run_tool_calls_untouched[of w env calls "messages s"] run
      have u1: "gateway_untouched w w1" by simp
      show ?thesis
      proof (cases x)
        case (Inl e)
        with Some lt run u1 show ?thesis by (subst react_loop.simps) simp
      next
        case (Inr msgs)
        obtain y w2 where chat: "llm_chat env w1 msgs = (y, w2)"
          by (cases "llm_chat env w1 msgs")
        from llm_chat_untouched[of w1 env msgs] chat have "gateway_untouched w1 w2" by simp
        with u1 have u2: "gateway_untouched w w2" by (rule gateway_untouched_trans)
        show ?thesis
        proof (cases y)
          case (Inl e)
          with Some lt run Inr chat u2 show ?thesis
            by (subst react_loop.simps) simp
        next
          case r: (Inr nextResponse)
          let ?s1 = "\<lparr>messages = msgs, toolCalls = r_toolCalls nextResponse,
                      finalResponse = r_content nextResponse,
                      toolCallCount = Suc (toolCallCount s)\<rparr>"
          have step: "react_loop env s w = react_loop env ?s1 w2"
            by (subst react_loop.simps) (simp add: Some lt run Inr chat r)
          from "1.IH"[OF Some lt run[symmetric] Inr chat[symmetric] r]
          have "gateway_untouched w2 (snd (react_loop env ?s1 w2))" .
          with u2 show ?thesis
            unfolding step by (rule gateway_untouched_trans)
        qed
      qed
    qed
  qed
qed

lemma handleMessage_try_shape:
  "(\<exists>e w1. handleMessage_try env w inp = (Inl e, w1) \<and> gateway_untouched w w1) \<or>
   (\<exists>w1 final. handleMessage_try env w inp =
        sendResponse (tool_env env) w1 (in_channelName inp) (in_sessionId inp) final \<and>
      gateway_untouched w w1)"
proof -
  let ?known = "case memoryStore env of
                     None \<Rightarrow> None
                   | Some store \<Rightarrow>
                       (case sender_phone (in_metadata inp) of
                          None \<Rightarrow> None
                        | Some phone \<Rightarrow> Some (store, phone))"
  let ?ctx = "case ?known of
                 None \<Rightarrow> Inr []
               | Some (store, phone) \<Rightarrow>
                   (case getCustomer store phone of
                      Inl e \<Rightarrow> Inl e
                    | Inr c \<Rightarrow> Inr (customer_context c))"
  show ?thesis
  proof (cases ?ctx)
    case (Inl e)
    then have "handleMessage_try env w inp = (Inl e, w)"
      by (simp add: handleMessage_try_def Let_def)
    then show ?thesis by simp
  next
    case (Inr ctx)
    let ?msgs = "[Plain ''system'' (systemPrompt env @ ctx)] @
                 map (\<lambda>(r, c). Plain r c) (getConversationHistory w (in_sessionId inp)) @
                 [Plain ''user'' (in_message inp)]"
    obtain y w1 where chat: "llm_chat env w ?msgs = (y, w1)"
      by (cases "llm_chat env w ?msgs")
    from llm_chat_untouched[of w env ?msgs] chat have u1: "gateway_untouched w w1"
      by simp
    show ?thesis
    proof (cases y)
      case (Inl e)
      with Inr chat have "handleMessage_try env w inp = (Inl e, w1)"
        by (simp add: handleMessage_try_def Let_def)
      with u1 show ?thesis by simp
    next
      case r: (Inr response)
      let ?s0 = "\<lparr>messages = ?msgs, toolCalls = r_toolCalls response,
                  finalResponse = r_content response, toolCallCount = 0\<rparr>"
      obtain z w2 where lp: "react_loop env ?s0 w1 = (z, w2)"
        by (cases "react_loop env ?s0 w1")
      from react_loop_untouched[of w1 env ?s0] lp have "gateway_untouched w1 w2" by simp
      with u1 have u2: "gateway_untouched w w2" by (rule gateway_untouched_trans)
      show ?thesis
      proof (cases z)
        case (Inl e)
        with Inr chat r lp have "handleMessage_try env w inp = (Inl e, w2)"
          by (simp add: handleMessage_try_def Let_def)
        with u2 show ?thesis by simp
      next
        case s: (Inr s)
        let ?w3 = "saveToHistory (tool_env env) w2 (in_sessionId inp) (in_message inp)
                     (finalResponse s)"
        from u2 saveToHistory_untouched[of w2 "tool_env env" "in_sessionId inp"
            "in_message inp" "finalResponse s"]
        have u3: "gateway_untouched w ?w3" by (rule gateway_untouched_trans)
        let ?learn = "case ?known of
                        None \<Rightarrow> None
                      | Some (store, phone) \<Rightarrow>
                          learnFromConversation store phone
                            [(''user'', in_message inp), (''assistant'', finalResponse s)]"
        show ?thesis
        proof (cases ?learn)
          case None
          with Inr chat r lp s have "handleMessage_try env w inp =
              sendResponse (tool_env env) ?w3 (in_channelName inp) (in_sessionId inp)
                (finalResponse s)"
            by (simp add: handleMessage_try_def Let_def)
          with u3 show ?thesis by blast
        next
          case (Some e)
          with Inr chat r lp s have "handleMessage_try env w inp = (Inl e, ?w3)"
            by (simp add: handleMessage_try_def Let_def)
          with u3 show ?thesis by blast
        qed
      qed
    qed
  qed
qed

subsection \<open>Which executions throw\<close>

lemma registered_tools_cases:
  assumes "n \<in> set registered_tools"
  obtains "n = ''get_business_info''" | "n = ''get_menu''" | "n = ''check_availability''"
    | "n = ''create_booking''" | "n = ''take_order''" | "n = ''get_directions''"
    | "n = ''handle_complaint''" | "n = ''collect_feedback''" | "n = ''escalate''"
    | "n = ''search_knowledge''" | "n = ''calculate_price''"
proof -
  from assms have "n = ''get_business_info'' \<or> n = ''get_menu'' \<or> n = ''check_availability''
    \<or> n = ''create_booking'' \<or> n = ''take_order'' \<or> n = ''get_directions''
    \<or> n = ''handle_complaint'' \<or> n = ''collect_feedback'' \<or> n = ''escalate''
    \<or> n = ''search_knowledge'' \<or> n = ''calculate_price''"
    unfolding registered_tools_def by (simp only: set_simps insert_iff empty_iff simp_thms)
  then show ?thesis
    apply (elim disjE)
              apply (erule that(1))
             apply (erule that(2))
            apply (erule that(3))
           apply (erule that(4))
          apply (erule that(5))
         apply (erule that(6))
        apply (erule that(7))
       apply (erule that(8))
      apply (erule that(9))
     apply (erule that(10))
    apply (erule that(11))
    done
qed

lemma businessConfig_load: "businessConfig (loadBusinessConfig env st) \<noteq> None"
  by (simp add: loadBusinessConfig_def console_log_def split: option.splits)

lemma order_lines_throws: "isl (order_lines items) \<longleftrightarrow> (\<exists>i \<in> set items. item_price i = None)"
  by (induction items)
     (auto simp: item_price_value_def split: option.splits price.splits sum.splits)

lemma throws_getBusinessInfo: "businessConfig st \<noteq> None \<Longrightarrow> \<not> throws (getBusinessInfo st)"
  by (auto simp: throws_def getBusinessInfo_def)

lemma throws_getMenu: "businessConfig st \<noteq> None \<Longrightarrow> \<not> throws (getMenu st c)"
  by (auto simp: throws_def getMenu_def Let_def)

lemma throws_getDirections: "businessConfig st \<noteq> None \<Longrightarrow> \<not> throws (getDirections st)"
  by (auto simp: throws_def getDirections_def Let_def)

lemma throws_checkAvailability: "\<not> throws (checkAvailability st d t g)"
  by (simp add: throws_def checkAvailability_def)

lemma throws_createBooking: "\<not> throws (createBooking env st a)"
  by (simp add: throws_def createBooking_def date_now_def Let_def)

lemma throws_escalate: "\<not> throws (escalate env st r c d)"
  by (simp add: throws_def escalate_def date_now_def Let_def)

lemma throws_handleComplaint: "\<not> throws (handleComplaint env st a)"
  by (simp add: throws_def handleComplaint_def date_now_def Let_def split: prod.splits sum.splits)

lemma throws_searchKnowledge: "\<not> throws (searchKnowledge env st q)"
  by (simp add: throws_def searchKnowledge_def Let_def)

lemma throws_calculatePrice: "throws (calculatePrice st items) \<longleftrightarrow> items = None"
  by (simp add: throws_def calculatePrice_def Let_def split: option.splits)

lemma throws_collectFeedback:
  "throws (collectFeedback env st a) \<longleftrightarrow>
     (case arg_rating a of None \<Rightarrow> False | Some r \<Rightarrow> r \<le> - 1)"
  by (simp add: throws_def collectFeedback_def star_repeat_def date_now_def Let_def
      split: option.splits)

lemma throws_takeOrder:
  "throws (takeOrder env st a) \<longleftrightarrow>
     (case arg_items a of None \<Rightarrow> True | Some items \<Rightarrow> \<exists>i \<in> set items. item_price i = None)"
proof (cases "arg_items a")
  case None
  then show ?thesis by (simp add: throws_def takeOrder_def)
next
  case (Some items)
  show ?thesis
  proof (cases "order_lines items")
    case (Inl e)
    with order_lines_throws[of items] Some show ?thesis
      by (simp add: throws_def takeOrder_def)
  next
    case (Inr ls)
    with order_lines_throws[of items] Some show ?thesis
      by (simp add: throws_def takeOrder_def date_now_def Let_def)
  qed
qed

subsection \<open>Other sessions, other addresses\<close>

lemma saveToHistory_other_session:
  "sid' \<noteq> sid \<Longrightarrow> conversations (saveToHistory env w sid' u a) sid = conversations w sid"
  by (simp add: saveToHistory_def now_def date_now_def Let_def)

lemma sender_of_jid: "CHR ''@'' \<notin> set sender \<Longrightarrow> sender_of (sender @ ''@'' @ domain) = sender"
  by (induction sender) (auto simp: sender_of_def)

section \<open>Properties of the tool executor\<close>

text \<open>
  C1, as the code has it. For every tool name that is not one of the registered names,
  \<^verbatim>\<open>execute\<close> throws, whatever the arguments are: it loads the business configuration,
  runs no tool, and the exception is a plain \<^verbatim>\<open>Error\<close> whose message is
  \<^verbatim>\<open>Unknown tool: \<close> followed by the name.
\<close>

theorem execute_unknown_tool:
  "toolName \<notin> set registered_tools \<Longrightarrow>
   execute env st toolName args =
     (Inl (Error (''Unknown tool: '' @ toolName)), loadBusinessConfig env st)"
  by (simp add: execute_def registered_tools_def)

theorem execute_unknown_tool_witness:
  "''unknown_tool'' \<notin> set registered_tools \<and>
   execute sample_env fresh_tools ''unknown_tool'' no_args =
     (Inl (Error ''Unknown tool: unknown_tool''), loadBusinessConfig sample_env fresh_tools)"
  using execute_unknown_tool [of "''unknown_tool''" sample_env fresh_tools no_args]
  by (simp add: registered_tools_def)

text \<open>
  C1 as stated asks for a typed \<^verbatim>\<open>UnknownTool\<close> outcome and never a generic error. The
  source has no such type: \<^verbatim>\<open>execute("unknown_tool", {})\<close> throws the generic
  \<^verbatim>\<open>Error\<close>.
\<close>

theorem unknown_tool_is_generic_error:
  "fst (execute sample_env fresh_tools ''unknown_tool'' no_args) =
     Inl (Error ''Unknown tool: unknown_tool'') \<and>
   is_generic (Error ''Unknown tool: unknown_tool'')"
  by (simp add: execute_def)

text \<open>
  C2. The schema of \<^verbatim>\<open>take_order\<close> requires only \<^verbatim>\<open>name\<close> and \<^verbatim>\<open>quantity\<close> of an
  item. An order of one item without \<^verbatim>\<open>price\<close> conforms to it, yet the executor throws
  a \<^verbatim>\<open>TypeError\<close> instead of returning a result: \<^verbatim>\<open>execute\<close> raises on an argument
  object that conforms to the declared schema.
\<close>

theorem take_order_without_price_throws:
  "take_order_conforms order_without_price \<and>
   fst (execute env st ''take_order'' order_without_price) =
     Inl (TypeError (''Cannot read properties of undefined (reading '' @ apostrophe @
                     ''replace'' @ apostrophe @ '')''))"
  by (simp add: execute_def takeOrder_def order_without_price_def no_args_def
      item_price_value_def undefined_property_def take_order_conforms_def item_conforms_def)

text \<open>
  A second raise on arguments of the declared types: \<^verbatim>\<open>collect_feedback\<close> with a
  negative \<^verbatim>\<open>rating\<close>.
\<close>

lemma collect_feedback_negative_rating_throws:
  "fst (execute env st ''collect_feedback'' (no_args\<lparr>arg_rating := Some (- 1)\<rparr>)) =
     Inl (RangeError ''Invalid count value: -1'')"
  by (simp add: execute_def collectFeedback_def no_args_def star_repeat_def date_now_def
      Let_def num_str_def show_nat.simps digit_char_def split: prod.splits)

text \<open>
  These are the only raises of a registered tool, whatever the state and the environment:
  \<^verbatim>\<open>take_order\<close> without \<^verbatim>\<open>items\<close> or with an item that has no price,
  \<^verbatim>\<open>calculate_price\<close> without \<^verbatim>\<open>items\<close>, and \<^verbatim>\<open>collect_feedback\<close> with a rating of
  \<^verbatim>\<open>-1\<close> or less.
\<close>

lemma execute_throws_iff:
  assumes "toolName \<in> set registered_tools"
  shows "throws (execute env st toolName args) \<longleftrightarrow>
     (toolName = ''take_order'' \<and>
        (case arg_items args of None \<Rightarrow> True
         | Some items \<Rightarrow> \<exists>i \<in> set items. item_price i = None)) \<or>
     (toolName = ''calculate_price'' \<and> arg_items args = None) \<or>
     (toolName = ''collect_feedback'' \<and>
        (case arg_rating args of None \<Rightarrow> False | Some r \<Rightarrow> r \<le> - 1))"
  using assms
proof (cases rule: registered_tools_cases)
  case 1
  then show ?thesis
    by (simp add: execute_def throws_getBusinessInfo businessConfig_load)
next
  case 2
  then show ?thesis by (simp add: execute_def throws_getMenu businessConfig_load)
next
  case 3
  then show ?thesis by (simp add: execute_def throws_checkAvailability)
next
  case 4
  then show ?thesis by (simp add: execute_def throws_createBooking)
next
  case 5
  then show ?thesis by (simp add: execute_def throws_takeOrder)
next
  case 6
  then show ?thesis by (simp add: execute_def throws_getDirections businessConfig_load)
next
  case 7
  then show ?thesis by (simp add: execute_def throws_handleComplaint)
next
  case 8
  then show ?thesis by (simp add: execute_def throws_collectFeedback)
next
  case 9
  then show ?thesis by (simp add: execute_def throws_escalate)
next
  case 10
  then show ?thesis by (simp add: execute_def throws_searchKnowledge)
next
  case 11
  then show ?thesis by (simp add: execute_def throws_calculatePrice)
qed



text \<open>
  C8, as the code has it. An id is a literal that depends on the tool, followed by one
  reading of the clock; there is no counter. So the ids of two executions that assign one
  are equal exactly when the two tools are the same and the two clock readings are equal:
  they are distinct for tools of different kinds and for different milliseconds.
\<close>

theorem ids_distinct_iff:
  assumes "n1 \<in> set id_tools" and "n2 \<in> set id_tools"
    and "assigned_id (execute env st1 n1 a1) = Some i1"
    and "assigned_id (execute env st2 n2 a2) = Some i2"
  shows "i1 = i2 \<longleftrightarrow> n1 = n2 \<and> clock env (ticks st1) = clock env (ticks st2)"
proof -
  have 1: "i1 = id_prefix n1 @ show_nat (clock env (ticks st1))"
    using assms(1,3) by (rule execute_id)
  have 2: "i2 = id_prefix n2 @ show_nat (clock env (ticks st2))"
    using assms(2,4) by (rule execute_id)
  have 3: "(show_nat (clock env (ticks st1)) = show_nat (clock env (ticks st2)))
      = (clock env (ticks st1) = clock env (ticks st2))"
  proof
    assume "show_nat (clock env (ticks st1)) = show_nat (clock env (ticks st2))"
    then show "clock env (ticks st1) = clock env (ticks st2)" by (rule show_nat_inj)
  next
    assume "clock env (ticks st1) = clock env (ticks st2)"
    then show "show_nat (clock env (ticks st1)) = show_nat (clock env (ticks st2))" by simp
  qed
  show ?thesis
    by (simp only: 1 2 id_prefix_eq[OF assms(1,2)] 3)
qed

theorem ids_distinct_iff_witness:
  "''create_booking'' \<in> set id_tools \<and>
   assigned_id (execute sample_env fresh_tools ''create_booking'' table_for_two) =
     Some ''BK-1700000000000'' \<and>
   assigned_id (execute sample_env (fresh_tools\<lparr>ticks := 2\<rparr>) ''create_booking'' table_for_two) =
     Some ''BK-1700000000002'' \<and>
   ((''BK-1700000000000'' = ''BK-1700000000002'') \<longleftrightarrow>
      ''create_booking'' = ''create_booking'' \<and>
      clock sample_env (ticks fresh_tools) = clock sample_env (ticks (fresh_tools\<lparr>ticks := 2\<rparr>)))"
proof -
  have t: "''create_booking'' \<in> set id_tools"
    by (simp add: id_tools_def)
  have a: "assigned_id (execute sample_env fresh_tools ''create_booking'' table_for_two) =
      Some ''BK-1700000000000''"
    by (simp add: execute_create_booking id_createBooking sample_env_def fresh_tools_def
        show_nat_sample)
  have b: "assigned_id (execute sample_env (fresh_tools\<lparr>ticks := 2\<rparr>) ''create_booking''
      table_for_two) = Some ''BK-1700000000002''"
    by (simp add: execute_create_booking id_createBooking sample_env_def fresh_tools_def
        show_nat_sample)
  from ids_distinct_iff [OF t t a b] t a b show ?thesis by simp
qed

text \<open>
  C8 as stated fails: two bookings made while the clock shows the same millisecond get the
  same id.
\<close>

theorem same_millisecond_same_id:
  "assigned_id (execute frozen_env fresh_tools ''create_booking'' table_for_two) =
     Some ''BK-1700000000000'' \<and>
   assigned_id (execute frozen_env
       (snd (execute frozen_env fresh_tools ''create_booking'' table_for_two))
       ''create_booking'' table_for_six) = Some ''BK-1700000000000''"
  by (simp add: execute_create_booking id_createBooking frozen_env_def show_nat_sample)

section \<open>Properties of the agent runtime\<close>




text \<open>
  C4, as the code has it. The cap is on the runtime's own log, the one that
  \<^verbatim>\<open>getConversationHistory\<close> reads: after any sequence of turns saved by
  \<^verbatim>\<open>saveToHistory\<close> into a runtime that started with no conversations, the log of every
  session holds the last 50 of the messages that its turns contributed, in their order, so
  at most 50 messages, the oldest being dropped.
\<close>

theorem history_capped_at_fifty:
  "map role_content (log_of (save_turns env (w\<lparr>conversations := Map.empty\<rparr>) turns) sessionId) =
     slice_last 50 (turn_messages sessionId turns) \<and>
   length (log_of (save_turns env (w\<lparr>conversations := Map.empty\<rparr>) turns) sessionId) \<le> 50"
  using save_turns_log [of "w\<lparr>conversations := Map.empty\<rparr>" sessionId env turns]
  by (simp add: log_of_def)

text \<open>
  C4 as stated fails for the gateway's log of a session, to which \<^verbatim>\<open>routeMessage\<close>
  appends: nothing caps it, and after 51 inbound messages it holds more than 50.
\<close>

theorem gateway_log_exceeds_fifty:
  "\<not> length (session_log (route_many sample_env fresh_world ''whatsapp'' ''wa_27821234567''
        (replicate 51 ''hello'')) ''wa_27821234567'') \<le> 50"
  by (simp add: route_many_length)

text \<open>
  C5, as the code has it. \<^verbatim>\<open>getConversationHistory\<close> takes no limit: it returns the last
  ten messages of the runtime's log of the session (all of them when there are fewer, none
  for a session without log), in the order of the log, which is oldest first, each reduced
  to role and content. So it never returns more than ten messages; and it reads nothing but
  that log, so two calls between which the log of the session has not changed return the
  same.
\<close>

theorem getConversationHistory_last_ten:
  "getConversationHistory w sessionId = slice_last 10 (map role_content (log_of w sessionId)) \<and>
   length (getConversationHistory w sessionId) \<le> 10 \<and>
   (conversations w' sessionId = conversations w sessionId \<longrightarrow>
      getConversationHistory w' sessionId = getConversationHistory w sessionId)"
  by (simp add: getConversationHistory_def log_of_def role_content_def slice_last_map
      length_slice_last split: option.splits)
     (simp add: slice_last_def)

theorem getConversationHistory_last_ten_witness:
  "conversations (saveToHistory sample_env chatty_world ''wa_27835550100'' ''Hi'' ''Hello!'')
     ''wa_27821234567'' = conversations chatty_world ''wa_27821234567'' \<and>
   getConversationHistory
     (saveToHistory sample_env chatty_world ''wa_27835550100'' ''Hi'' ''Hello!'')
     ''wa_27821234567'' = getConversationHistory chatty_world ''wa_27821234567'' \<and>
   getConversationHistory chatty_world ''wa_27821234567'' = replicate 10 (''user'', ''hello'')"
proof -
  have c: "conversations
      (saveToHistory sample_env chatty_world ''wa_27835550100'' ''Hi'' ''Hello!'')
      ''wa_27821234567'' = conversations chatty_world ''wa_27821234567''"
    by (rule saveToHistory_other_session) simp
  have h: "getConversationHistory chatty_world ''wa_27821234567'' =
      replicate 10 (''user'', ''hello'')"
    by (simp add: getConversationHistory_def chatty_world_def slice_last_def
        sample_message_def)
  from getConversationHistory_last_ten
    [of chatty_world "''wa_27821234567''"
      "saveToHistory sample_env chatty_world ''wa_27835550100'' ''Hi'' ''Hello!''"] c h
  show ?thesis by simp
qed

text \<open>
  C5 as stated fails for every limit below ten: with twelve messages in the log, a caller
  that wants at most three gets ten.
\<close>

theorem history_longer_than_limit:
  "\<not> length (getConversationHistory chatty_world ''wa_27821234567'') \<le> 3"
  by (simp add: getConversationHistory_def chatty_world_def slice_last_def)



text \<open>
  The same holds for whatever else is thrown before the reply is handed to the gateway (by
  the customer memory, by a tool, by a later model call), provided the channel's adapter
  does not throw: the turn answers with the apology.
\<close>

lemma any_failure_apology:
  assumes thrown: "fst (handleMessage_try env w inp) = Inl e"
    and quiet: "\<forall>ad sid text. channels w (in_channelName inp) = Some ad \<longrightarrow>
                  send_outcome ad sid text = None"
  shows "responses (snd (handleMessage env w inp)) =
           responses w @ [(in_channelName inp, in_sessionId inp, apology)]"
proof -
  from handleMessage_try_shape[of env w inp] show ?thesis
  proof (elim disjE exE conjE)
    fix e' w1
    assume t: "handleMessage_try env w inp = (Inl e', w1)" and u: "gateway_untouched w w1"
    from t have "handleMessage env w inp =
        sendResponse (tool_env env) w1 (in_channelName inp) (in_sessionId inp) apology"
      by (simp add: handleMessage_def)
    with u show ?thesis by (simp add: sendResponse_effect gateway_untouched_def)
  next
    fix w1 final
    assume t: "handleMessage_try env w inp =
        sendResponse (tool_env env) w1 (in_channelName inp) (in_sessionId inp) final"
      and u: "gateway_untouched w w1"
    have "fst (sendResponse (tool_env env) w1 (in_channelName inp) (in_sessionId inp) final) =
        Inr ()"
      using quiet u by (intro sendResponse_returns) (simp add: gateway_untouched_def)
    with thrown t show ?thesis by simp
  qed
qed

section \<open>Properties of the gateway\<close>

text \<open>
  C6, as the code has it. \<^verbatim>\<open>broadcast\<close> sends the event to every client whose connection
  is open and whose \<^verbatim>\<open>send\<close> does not throw, also when the \<^verbatim>\<open>send\<close> of another client
  throws. It removes no client: one whose \<^verbatim>\<open>send\<close> throws, or whose connection is not
  open, stays in the set as it was.
\<close>

theorem broadcast_delivers_and_keeps:
  "clients (broadcast ev w) =
     map (\<lambda>c. if readyState c = OPEN \<and> send_throws c ev = None
               then c\<lparr>received := received c @ [ev]\<rparr> else c) (clients w)"
  by (simp add: broadcast_def case_prod_unfold clients_console_error fst_broadcast_to)

text \<open>
  C6 as stated fails: a client whose \<^verbatim>\<open>send\<close> throws is still the first element of the
  set after the broadcast, while the second client has received the event.
\<close>

theorem broadcast_keeps_failing_client:
  "map received (clients (broadcast sample_event
      (fresh_world\<lparr>clients := [broken_client, healthy_client]\<rparr>))) = [Nil, [sample_event]] \<and>
   hd (clients (broadcast sample_event
      (fresh_world\<lparr>clients := [broken_client, healthy_client]\<rparr>))) = broken_client \<and>
   send_throws broken_client sample_event \<noteq> None"
  by (simp add: broadcast_def case_prod_unfold clients_console_error fresh_world_def
      broken_client_def healthy_client_def console_error_def)

section \<open>Properties of the WhatsApp adapter\<close>


end
